theory Spec2Isabelle
  imports Complex_Main "HOL-Library.Product_Lexorder" "HOL-Library.Multiset"
begin

section \<open>The rule-based scoring engine of the business-plan analyzer\<close>

text \<open>
  A shallow embedding of \<^verbatim>\<open>UnifiedBusinessPlanAnalyzer\<close>
  (\<^verbatim>\<open>src/ai_analysis/src/analyzers/analyzer.py\<close>): the feature extractor
  \<^verbatim>\<open>_perform_comprehensive_analysis\<close>, the criterion evaluator
  \<^verbatim>\<open>_evaluate_criterion_with_rules\<close>, the aggregation in
  \<^verbatim>\<open>_analyze_with_rules\<close> and the recommendation generator.

  Conventions of the embedding:
  \<^item> A Python \<^verbatim>\<open>str\<close> is a \<^typ>\<open>string\<close> holding the UTF-8 bytes of the text. Substring
    search on the bytes of well-formed UTF-8 finds exactly the occurrences that the search
    on code points finds. Case folding, whitespace and digits are those of the ASCII
    range (Python also folds non-ASCII letters and knows non-ASCII whitespace and digits).
  \<^item> Python's \<^verbatim>\<open>float\<close> and \<^verbatim>\<open>int\<close> scores are exact rationals (\<^typ>\<open>rat\<close>): the
    literals \<^verbatim>\<open>0.3\<close>, \<^verbatim>\<open>1.5\<close>, \<^verbatim>\<open>0.8\<close>, \<^verbatim>\<open>0.6\<close> are \<open>3/10\<close>, \<open>3/2\<close>, \<open>4/5\<close>, \<open>3/5\<close>, and no
    rounding happens.
  \<^item> A \<^verbatim>\<open>dict\<close> with string keys is an association list, read with \<^const>\<open>map_of\<close>;
    \<^verbatim>\<open>d[k]\<close> on a missing key is the error \<open>KeyError k\<close>.
  \<^item> Every raise of the source is a value \<open>Inl e\<close> of the result type.
\<close>

subsection \<open>Errors\<close>

datatype py_error = KeyError string | ZeroDivisionError

definition err_bind :: "py_error + 'a \<Rightarrow> ('a \<Rightarrow> py_error + 'b) \<Rightarrow> py_error + 'b" where
  "err_bind m f = (case m of Inl e \<Rightarrow> Inl e | Inr x \<Rightarrow> f x)"

subsection \<open>Strings\<close>

text \<open>The non-ASCII characters that the source's literals use, as UTF-8.\<close>

definition E_acute :: string where "E_acute = [CHR 0xC3, CHR 0x89]"
definition e_acute :: string where "e_acute = [CHR 0xC3, CHR 0xA9]"
definition e_grave :: string where "e_grave = [CHR 0xC3, CHR 0xA8]"
definition e_circ :: string where "e_circ = [CHR 0xC3, CHR 0xAA]"
definition a_grave :: string where "a_grave = [CHR 0xC3, CHR 0xA0]"
definition oe_lig :: string where "oe_lig = [CHR 0xC5, CHR 0x93]"
definition euro_sign :: string where "euro_sign = [CHR 0xE2, CHR 0x82, CHR 0xAC]"
definition pound_sign :: string where "pound_sign = [CHR 0xC2, CHR 0xA3]"
definition apostrophe :: string where "apostrophe = [CHR 0x27]"

text \<open>\<^verbatim>\<open>len(text)\<close> counts code points: every byte but the continuation bytes \<open>0x80..0xBF\<close>.\<close>

definition is_continuation :: "char \<Rightarrow> bool" where
  "is_continuation c = (128 \<le> (of_char c :: nat) \<and> (of_char c :: nat) < 192)"

definition py_len :: "string \<Rightarrow> nat" where
  "py_len s = length (filter (\<lambda>c. \<not> is_continuation c) s)"

text \<open>\<^verbatim>\<open>str.isspace\<close> on the ASCII range: tab, LF, VT, FF, CR, FS, GS, RS, US and space.\<close>

definition is_space :: "char \<Rightarrow> bool" where
  "is_space c = (c \<in> set [CHR 0x09, CHR 0x0A, CHR 0x0B, CHR 0x0C, CHR 0x0D,
                            CHR 0x1C, CHR 0x1D, CHR 0x1E, CHR 0x1F, CHR 0x20])"

definition is_digit :: "char \<Rightarrow> bool" where
  "is_digit c = (c \<in> set ''0123456789'')"

definition lower_char :: "char \<Rightarrow> char" where
  "lower_char c =
     (case map_of (zip ''ABCDEFGHIJKLMNOPQRSTUVWXYZ'' ''abcdefghijklmnopqrstuvwxyz'') c of
        Some l \<Rightarrow> l
      | None \<Rightarrow> c)"

definition lower :: "string \<Rightarrow> string" where
  "lower s = map lower_char s"

fun startswith :: "string \<Rightarrow> string \<Rightarrow> bool" where
  "startswith s [] = True"
| "startswith [] (p # ps) = False"
| "startswith (c # cs) (p # ps) = (c = p \<and> startswith cs ps)"

text \<open>
  \<^verbatim>\<open>text.count(sub)\<close>: the occurrences of \<open>sub\<close> found from left to right, the search
  going on behind each occurrence (so they do not overlap). The first argument of the
  scan is the number of characters still covered by the last occurrence. For the empty
  \<open>sub\<close> Python answers \<open>len(text) + 1\<close>.
\<close>

fun count_scan :: "nat \<Rightarrow> string \<Rightarrow> string \<Rightarrow> nat" where
  "count_scan skip sub [] = 0"
| "count_scan skip sub (c # cs) =
     (if 0 < skip then count_scan (skip - 1) sub cs
      else if startswith (c # cs) sub then 1 + count_scan (length sub - 1) sub cs
      else count_scan 0 sub cs)"

definition str_count :: "string \<Rightarrow> string \<Rightarrow> nat" where
  "str_count text sub = (if sub = [] then py_len text + 1 else count_scan 0 sub text)"

text \<open>\<^verbatim>\<open>sub in text\<close>.\<close>

fun str_contains :: "string \<Rightarrow> string \<Rightarrow> bool" where
  "str_contains [] sub = (sub = [])"
| "str_contains (c # cs) sub = (startswith (c # cs) sub \<or> str_contains cs sub)"

text \<open>\<^verbatim>\<open>text.split()\<close>: the maximal runs of non-whitespace characters.\<close>

fun split_ws :: "string \<Rightarrow> string \<Rightarrow> string list" where
  "split_ws cur [] = (if cur = [] then [] else [cur])"
| "split_ws cur (c # cs) =
     (if is_space c then (if cur = [] then split_ws [] cs else cur # split_ws [] cs)
      else split_ws (cur @ [c]) cs)"

definition str_split :: "string \<Rightarrow> string list" where
  "str_split text = split_ws [] text"

text \<open>
  \<^verbatim>\<open>re.split(r'[.!?]+', text)\<close>: the pieces between the maximal runs of \<open>.\<close>, \<open>!\<close> and \<open>?\<close>.
  A run at the start or at the end leaves an empty piece there, and a text without any
  run (the empty text too) is one piece. The flag says that the scan is inside a run.
\<close>

fun split_runs :: "string \<Rightarrow> bool \<Rightarrow> string \<Rightarrow> string list" where
  "split_runs cur in_run [] = [cur]"
| "split_runs cur in_run (c # cs) =
     (if c \<in> set ''.!?'' then
        (if in_run then split_runs cur True cs else cur # split_runs [] True cs)
      else split_runs (cur @ [c]) False cs)"

definition re_split_sentences :: "string \<Rightarrow> string list" where
  "re_split_sentences text = split_runs [] False text"

text \<open>\<^verbatim>\<open>text.split('\n\n')\<close>: the pieces between the occurrences of two line feeds.\<close>

fun split_nn :: "string \<Rightarrow> string \<Rightarrow> string list" where
  "split_nn cur (a # b # cs) =
     (if a = CHR 0x0A \<and> b = CHR 0x0A then cur # split_nn [] cs
      else split_nn (cur @ [a]) (b # cs))"
| "split_nn cur [a] = [cur @ [a]]"
| "split_nn cur [] = [cur]"

definition split_paragraphs :: "string \<Rightarrow> string list" where
  "split_paragraphs text = split_nn [] text"

text \<open>\<^verbatim>\<open>p.strip()\<close>: without the whitespace at both ends.\<close>

definition strip :: "string \<Rightarrow> string" where
  "strip p = rev (dropWhile is_space (rev (dropWhile is_space p)))"

text \<open>
  \<^verbatim>\<open>len(re.findall(pattern, text))\<close>: the scan tries the pattern at each position from
  left to right and goes on behind each match. A pattern is given by the length of its
  match at the start of a string (\<open>None\<close>: no match there); the three patterns of the
  source never match the empty string.
\<close>

fun findall_scan :: "(string \<Rightarrow> nat option) \<Rightarrow> nat \<Rightarrow> string \<Rightarrow> nat" where
  "findall_scan pat skip [] = 0"
| "findall_scan pat skip (c # cs) =
     (if 0 < skip then findall_scan pat (skip - 1) cs
      else (case pat (c # cs) of
              None \<Rightarrow> findall_scan pat 0 cs
            | Some n \<Rightarrow> 1 + findall_scan pat (n - 1) cs))"

definition findall_count :: "(string \<Rightarrow> nat option) \<Rightarrow> string \<Rightarrow> nat" where
  "findall_count pat text = findall_scan pat 0 text"

text \<open>\<^verbatim>\<open>\d+\<close>: the longest run of digits, at least one.\<close>

definition pat_digits :: "string \<Rightarrow> nat option" where
  "pat_digits s =
     (let n = length (takeWhile is_digit s) in if n = 0 then None else Some n)"

text \<open>
  \<^verbatim>\<open>\d+%\<close>: a run of digits and a percent sign. Giving back digits cannot help the
  match, since the character behind a shorter run is a digit.
\<close>

definition pat_percent :: "string \<Rightarrow> nat option" where
  "pat_percent s =
     (let n = length (takeWhile is_digit s) in
      if 0 < n \<and> startswith (drop n s) ''%'' then Some (n + 1) else None)"

text \<open>
  The third pattern: a character class of the dollar, euro and pound signs, then \<^verbatim>\<open>\s*\<close>,
  then \<^verbatim>\<open>[\d,]+\<close>. So: one of the three currency signs, any whitespace, and a longest
  run of digits and commas, at least one.
\<close>

definition currency_sign_len :: "string \<Rightarrow> nat option" where
  "currency_sign_len s =
     (if startswith s ''$'' then Some 1
      else if startswith s euro_sign then Some (length euro_sign)
      else if startswith s pound_sign then Some (length pound_sign)
      else None)"

definition pat_currency :: "string \<Rightarrow> nat option" where
  "pat_currency s =
     (case currency_sign_len s of
        None \<Rightarrow> None
      | Some k \<Rightarrow>
          (let ws = length (takeWhile is_space (drop k s));
               amount = length (takeWhile (\<lambda>c. is_digit c \<or> c = CHR '','') (drop (k + ws) s))
           in if amount = 0 then None else Some (k + ws + amount)))"

text \<open>\<^verbatim>\<open>str(n)\<close> for an integer, as the f-strings print it.\<close>

fun nat_digits :: "nat \<Rightarrow> string" where
  "nat_digits n =
     (if n < 10 then [''0123456789'' ! n]
      else nat_digits (n div 10) @ [''0123456789'' ! (n mod 10)])"

declare nat_digits.simps [simp del]

definition str_int :: "int \<Rightarrow> string" where
  "str_int i = (if i < 0 then ''-'' @ nat_digits (nat (- i)) else nat_digits (nat i))"

subsection \<open>Data model\<close>

text \<open>
  The values of the feature dictionary are Python integers and one \<^verbatim>\<open>bool\<close>; in
  arithmetic and comparisons Python reads \<^verbatim>\<open>True\<close> as 1 and \<^verbatim>\<open>False\<close> as 0.
\<close>

datatype pyval = PInt int | PBool bool

fun num_of :: "pyval \<Rightarrow> int" where
  "num_of (PInt i) = i"
| "num_of (PBool b) = (if b then 1 else 0)"

type_synonym feature_bag = "(string \<times> pyval) list"

text \<open>\<^verbatim>\<open>analysis_data[k]\<close> and \<^verbatim>\<open>analysis_data.get(k, default)\<close>.\<close>

definition bag_item :: "feature_bag \<Rightarrow> string \<Rightarrow> py_error + int" where
  "bag_item d k = (case map_of d k of None \<Rightarrow> Inl (KeyError k) | Some v \<Rightarrow> Inr (num_of v))"

definition bag_get :: "feature_bag \<Rightarrow> string \<Rightarrow> int \<Rightarrow> int" where
  "bag_get d k dflt = (case map_of d k of None \<Rightarrow> dflt | Some v \<Rightarrow> num_of v)"

text \<open>The entries of \<^verbatim>\<open>EvaluationCriterion.sub_criteria\<close>.\<close>

record sub_criterion =
  sub_name :: string
  sub_points :: int
  sub_description :: string

text \<open>\<^verbatim>\<open>EvaluationCriterion\<close>.\<close>

record evaluation_criterion =
  c_id :: int
  c_name :: string
  c_max_points :: int
  c_description :: string
  c_sub_criteria :: "sub_criterion list"

text \<open>The entries of \<^verbatim>\<open>EvaluationResult.sub_scores\<close>.\<close>

record sub_score =
  ss_name :: string
  ss_max_points :: int
  ss_earned_points :: rat
  ss_description :: string

text \<open>\<^verbatim>\<open>EvaluationResult\<close>.\<close>

record evaluation_result =
  criterion_id :: int
  criterion_name :: string
  max_points :: int
  earned_points :: rat
  reasoning :: string
  sub_scores :: "sub_score list"

text \<open>
  The texts that the engine composes around a formatted score are kept as the data they
  are composed from. The summary is one of two sentences around the total score. A
  recommendation is \<^verbatim>\<open>"<priority> - <title>: <content>"\<close>: for a weak criterion, title and
  content are fixed by the criterion's id and the content quotes the earned and the
  maximal points; the four general recommendations are fixed texts.
\<close>

datatype summary_text = Accepted rat | Refused rat

datatype priority = CRITIQUE | HAUTE | MOYENNE | FAIBLE

datatype general_topic =
  Developpement_du_business_plan
| Ajout_d_elements_financiers
| Retravailler_les_fondamentaux
| Professionnalisation_du_discours

datatype recommendation =
  Specific priority int rat int
| General priority general_topic

text \<open>The dictionaries collected in \<^verbatim>\<open>weak_criteria\<close>.\<close>

record weak_criterion =
  w_id :: int
  w_name :: string
  w_performance :: rat
  w_points :: rat
  w_max_points :: int

text \<open>\<^verbatim>\<open>BusinessPlanAnalysis\<close>.\<close>

record business_plan_analysis =
  total_score :: rat
  max_possible_score :: int
  threshold :: int
  is_eligible :: bool
  evaluation_date :: string
  criteria_results :: "evaluation_result list"
  summary :: summary_text
  recommendations :: "recommendation list"
  analysis_method :: string
  confidence_score :: rat
  processing_time :: rat

text \<open>
  What the engine reads from the clock when it builds the result: \<^verbatim>\<open>time.time()\<close> and
  \<^verbatim>\<open>datetime.now().isoformat()\<close>.
\<close>

record clock =
  time_now :: rat
  date_now_iso :: string

subsection \<open>The analyzer's fixed data\<close>

definition initialize_criteria :: "evaluation_criterion list" where
  "initialize_criteria = [
    \<lparr>c_id = 1, c_name = E_acute @ ''quipe'', c_max_points = 10,
     c_description = E_acute @ ''valuation de l'' @ apostrophe @ e_acute @ ''quipe fondatrice'',
     c_sub_criteria = [
        \<lparr>sub_name = E_acute @ ''quipe fondatrice identifi'' @ e_acute @ ''e'',
         sub_points = 3,
         sub_description = ''L'' @ apostrophe @ e_acute @
            ''quipe fondatrice est-elle clairement identifi'' @ e_acute @ ''e ?''\<rparr>,
        \<lparr>sub_name = ''Comp'' @ e_acute @ ''tences compl'' @ e_acute @ ''mentaires'',
         sub_points = 4,
         sub_description = ''Comp'' @ e_acute @
            ''tences techniques, business et marketing compl'' @ e_acute @ ''mentaires ?''\<rparr>,
        \<lparr>sub_name = ''Exp'' @ e_acute @ ''rience sectorielle'',
         sub_points = 3,
         sub_description = ''Exp'' @ e_acute @ ''rience pertinente dans le secteur d'' @
            apostrophe @ ''activit'' @ e_acute @ '' ?''\<rparr>]\<rparr>,
    \<lparr>c_id = 2, c_name = ''Probl'' @ e_acute @ ''matique identifi'' @ e_acute @ ''e'', c_max_points = 10,
     c_description = E_acute @ ''valuation de la probl'' @ e_acute @ ''matique identifi'' @
        e_acute @ ''e'',
     c_sub_criteria = [
        \<lparr>sub_name = ''Probl'' @ e_acute @ ''matique r'' @ e_acute @ ''elle et bien d'' @
            e_acute @ ''finie'',
         sub_points = 5,
         sub_description = ''La probl'' @ e_acute @ ''matique est-elle r'' @ e_acute @
            ''elle et bien d'' @ e_acute @ ''finie ?''\<rparr>,
        \<lparr>sub_name = ''Donn'' @ e_acute @ ''es validantes'',
         sub_points = 5,
         sub_description = ''Donn'' @ e_acute @ ''es validant l'' @ apostrophe @
            ''existence de cette probl'' @ e_acute @ ''matique ?''\<rparr>]\<rparr>,
    \<lparr>c_id = 3, c_name = ''Solution actuelle sur le march'' @ e_acute, c_max_points = 5,
     c_description = ''Connaissance des solutions existantes'',
     c_sub_criteria = [
        \<lparr>sub_name = ''Connaissance des solutions'',
         sub_points = 3,
         sub_description = ''Connaissance claire des solutions existantes ?''\<rparr>,
        \<lparr>sub_name = ''Limites identifi'' @ e_acute @ ''es'',
         sub_points = 2,
         sub_description = ''Limites de ces solutions bien identifi'' @ e_acute @ ''es ?''\<rparr>]\<rparr>,
    \<lparr>c_id = 4, c_name = ''Solution propos'' @ e_acute @ ''e & Valeur ajout'' @ e_acute @
        ''e'', c_max_points = 15,
     c_description = E_acute @ ''valuation de la solution et de sa valeur ajout'' @ e_acute @
        ''e'',
     c_sub_criteria = [
        \<lparr>sub_name = ''Solution expliqu'' @ e_acute @ ''e clairement'',
         sub_points = 5,
         sub_description = ''La solution est-elle expliqu'' @ e_acute @ ''e clairement ?''\<rparr>,
        \<lparr>sub_name = ''Innovation'',
         sub_points = 5,
         sub_description = ''Innovation par rapport aux solutions existantes ?''\<rparr>,
        \<lparr>sub_name = ''Impact concret'',
         sub_points = 5,
         sub_description = ''Impact ou b'' @ e_acute @ ''n'' @ e_acute @
            ''fice concret pour la client'' @ e_grave @ ''le ?''\<rparr>]\<rparr>,
    \<lparr>c_id = 5, c_name = ''Feuille de route du produit/service'', c_max_points = 5,
     c_description = ''Plan de d'' @ e_acute @ ''veloppement et d'' @ e_acute @ ''lais'',
     c_sub_criteria = [
        \<lparr>sub_name = ''Plan de d'' @ e_acute @ ''veloppement'',
         sub_points = 3,
         sub_description = ''Existence d'' @ apostrophe @ ''un plan de d'' @ e_acute @
            ''veloppement (MVP, phases futures) ?''\<rparr>,
        \<lparr>sub_name = ''D'' @ e_acute @ ''lais r'' @ e_acute @ ''alistes'',
         sub_points = 2,
         sub_description = ''D'' @ e_acute @ ''lais de mise en '' @ oe_lig @ ''uvre r'' @
            e_acute @ ''alistes ?''\<rparr>]\<rparr>,
    \<lparr>c_id = 6, c_name = ''Client'' @ e_grave @ ''le cibl'' @ e_acute @ ''e'', c_max_points = 5,
     c_description = ''D'' @ e_acute @ ''finition et taille du march'' @ e_acute @ '' cible'',
     c_sub_criteria = [
        \<lparr>sub_name = ''Segment bien d'' @ e_acute @ ''fini'',
         sub_points = 3,
         sub_description = ''Le segment de client'' @ e_grave @ ''le est-il bien d'' @ e_acute @
            ''fini et coh'' @ e_acute @ ''rent ?''\<rparr>,
        \<lparr>sub_name = ''Donn'' @ e_acute @ ''es quantitatives'',
         sub_points = 2,
         sub_description = ''Taille du march'' @ e_acute @ '' ou donn'' @ e_acute @
            ''es quantitatives disponibles ?''\<rparr>]\<rparr>,
    \<lparr>c_id = 7, c_name = ''Concurrents'', c_max_points = 5,
     c_description = ''Analyse de la concurrence'',
     c_sub_criteria = [
        \<lparr>sub_name = ''Analyse des concurrents'',
         sub_points = 3,
         sub_description = ''Analyse des concurrents bien faite (acteurs cl'' @ e_acute @
            ''s identifi'' @ e_acute @ ''s) ?''\<rparr>,
        \<lparr>sub_name = ''Compr'' @ e_acute @ ''hension du march'' @ e_acute,
         sub_points = 2,
         sub_description = ''Compr'' @ e_acute @ ''hension des parts de march'' @ e_acute @
            '' ou des concurrents directs/indirects ?''\<rparr>]\<rparr>,
    \<lparr>c_id = 8, c_name = ''Diff'' @ e_acute @ ''renciation'', c_max_points = 10,
     c_description = ''Avantage concurrentiel'',
     c_sub_criteria = [
        \<lparr>sub_name = ''Avantage concurrentiel'',
         sub_points = 5,
         sub_description = ''Avantage concurrentiel clairement '' @ e_acute @ ''nonc'' @
            e_acute @ '' ?''\<rparr>,
        \<lparr>sub_name = ''Difficilement r'' @ e_acute @ ''plicable'',
         sub_points = 5,
         sub_description = ''Avantage difficilement r'' @ e_acute @ ''plicable '' @ a_grave @
            '' court terme ?''\<rparr>]\<rparr>,
    \<lparr>c_id = 9, c_name = ''Strat'' @ e_acute @ ''gie de conqu'' @ e_circ @
        ''te du march'' @ e_acute, c_max_points = 10,
     c_description = ''Strat'' @ e_acute @ ''gie go-to-market'',
     c_sub_criteria = [
        \<lparr>sub_name = ''Strat'' @ e_acute @ ''gie go-to-market'',
         sub_points = 5,
         sub_description = ''Strat'' @ e_acute @ ''gie de go-to-market pr'' @ e_acute @
            ''cise (canaux de vente, communication) ?''\<rparr>,
        \<lparr>sub_name = ''Partenariats pr'' @ e_acute @ ''vus'',
         sub_points = 3,
         sub_description = ''Premiers partenariats ou d'' @ e_acute @
            ''marches commerciales pr'' @ e_acute @ ''vues ?''\<rparr>,
        \<lparr>sub_name = ''Strat'' @ e_acute @ ''gie de fid'' @ e_acute @ ''lisation'',
         sub_points = 2,
         sub_description = ''Strat'' @ e_acute @ ''gie de fid'' @ e_acute @
            ''lisation ou de croissance ?''\<rparr>]\<rparr>,
    \<lparr>c_id = 10, c_name = ''Mod'' @ e_grave @ ''le de business'', c_max_points = 10,
     c_description = ''Mod'' @ e_grave @ ''le '' @ e_acute @ ''conomique et g'' @ e_acute @
        ''n'' @ e_acute @ ''ration de revenus'',
     c_sub_criteria = [
        \<lparr>sub_name = ''Mod'' @ e_grave @ ''le '' @ e_acute @ ''conomique clair'',
         sub_points = 5,
         sub_description = ''Mod'' @ e_grave @ ''le '' @ e_acute @
            ''conomique clair (B2B, B2C, SaaS, abonnement, etc.) ?''\<rparr>,
        \<lparr>sub_name = ''G'' @ e_acute @ ''n'' @ e_acute @ ''ration de revenus'',
         sub_points = 5,
         sub_description = ''Logique de g'' @ e_acute @ ''n'' @ e_acute @
            ''ration de revenus r'' @ e_acute @ ''aliste ?''\<rparr>]\<rparr>,
    \<lparr>c_id = 11, c_name = ''Financements d'' @ e_acute @ ''taill'' @ e_acute @ ''s'', c_max_points = 10,
     c_description = ''Plan financier et besoins de financement'',
     c_sub_criteria = [
        \<lparr>sub_name = ''P&L'',
         sub_points = 5,
         sub_description = ''Mise en place d'' @ apostrophe @ ''un P&L ?''\<rparr>,
        \<lparr>sub_name = ''Besoins de financement'',
         sub_points = 3,
         sub_description = ''Estimation des besoins de financement ?''\<rparr>,
        \<lparr>sub_name = ''Sources de financement'',
         sub_points = 2,
         sub_description = ''Sources de financement pr'' @ e_acute @ ''vues ?''\<rparr>]\<rparr>,
    \<lparr>c_id = 12, c_name = ''Statut juridique de l'' @ apostrophe @ ''entreprise'', c_max_points = 5,
     c_description = ''Statut juridique et conformit'' @ e_acute @ '' l'' @ e_acute @ ''gale'',
     c_sub_criteria = [
        \<lparr>sub_name = ''Statut juridique'',
         sub_points = 3,
         sub_description = ''Statut juridique actuel ou pr'' @ e_acute @ ''vu ?''\<rparr>,
        \<lparr>sub_name = ''Conformit'' @ e_acute @ '' l'' @ e_acute @ ''gale'',
         sub_points = 2,
         sub_description = ''Conformit'' @ e_acute @ '' aux exigences l'' @ e_acute @
            ''gales pour l'' @ apostrophe @ ''activit'' @ e_acute @ '' vis'' @ e_acute @ ''e ?''\<rparr>]\<rparr>]"

definition load_business_keywords :: "(string \<times> string list) list" where
  "load_business_keywords = [
    (''financial'', [''revenue'', ''profit'', ''cost'', ''funding'', ''investment'',
                    ''financial'', ''budget'', ''cash flow'', ''roi'']),
    (''market'', [''market'', ''customer'', ''target'', ''segment'', ''competition'',
                 ''industry'', ''demand'', ''supply'']),
    (''strategy'', [''strategy'', ''plan'', ''goal'', ''objective'', ''milestone'',
                   ''timeline'', ''execution'', ''implementation'']),
    (''team'', [''team'', ''founder'', ''management'', ''experience'', ''expertise'',
               ''leadership'', ''staff'']),
    (''product'', [''product'', ''service'', ''solution'', ''innovation'', ''technology'',
                  ''feature'', ''development'']),
    (''risk'', [''risk'', ''threat'', ''challenge'', ''mitigation'', ''contingency'',
               ''uncertainty'', ''vulnerability'']),
    (''professional'', [''analysis'', ''research'', ''methodology'', ''framework'',
                       ''assessment'', ''evaluation'', ''metrics'', ''kpi'']),
    (''positive'', [''strong'', ''excellent'', ''innovative'', ''unique'', ''competitive'',
                   ''scalable'', ''profitable'', ''growth'']),
    (''negative'', [''weak'', ''poor'', ''limited'', ''risky'', ''unclear'', ''uncertain'',
                   ''difficult'', ''challenging''])]"

text \<open>The fields that \<^verbatim>\<open>__init__\<close> sets.\<close>

definition self_criteria :: "evaluation_criterion list" where
  "self_criteria = initialize_criteria"

definition self_threshold :: int where
  "self_threshold = 60"

definition self_business_keywords :: "(string \<times> string list) list" where
  "self_business_keywords = load_business_keywords"

subsection \<open>Feature extraction\<close>

text \<open>\<^verbatim>\<open>self.business_keywords[category]\<close>.\<close>

definition keywords_item :: "string \<Rightarrow> py_error + string list" where
  "keywords_item category =
     (case map_of self_business_keywords category of
        None \<Rightarrow> Inl (KeyError category)
      | Some terms \<Rightarrow> Inr terms)"

definition count_terms :: "string \<Rightarrow> string list \<Rightarrow> int" where
  "count_terms text terms = (\<Sum>t\<leftarrow>terms. int (str_count text t))"

definition check_sections :: "string \<Rightarrow> bool" where
  "check_sections text =
     (let section_indicators = [''executive summary'', ''market analysis'', ''financial'',
                                ''business model'', ''strategy'']
      in list_ex (\<lambda>indicator. str_contains (lower text) indicator) section_indicators)"

text \<open>
  The dictionary is built entry by entry; only the nine lookups in
  \<^verbatim>\<open>self.business_keywords\<close> can raise, and they are made in this order.
\<close>

definition perform_comprehensive_analysis :: "string \<Rightarrow> py_error + feature_bag" where
  "perform_comprehensive_analysis text =
     (let text_lower = lower text in
      err_bind (keywords_item ''financial'') (\<lambda>financial.
      err_bind (keywords_item ''market'') (\<lambda>market.
      err_bind (keywords_item ''strategy'') (\<lambda>strategy.
      err_bind (keywords_item ''team'') (\<lambda>team.
      err_bind (keywords_item ''product'') (\<lambda>product.
      err_bind (keywords_item ''risk'') (\<lambda>risk.
      err_bind (keywords_item ''professional'') (\<lambda>professional.
      err_bind (keywords_item ''positive'') (\<lambda>positive.
      err_bind (keywords_item ''negative'') (\<lambda>negative.
      Inr [
        (''text_length'', PInt (int (py_len text))),
        (''word_count'', PInt (int (length (str_split text)))),
        (''sentence_count'', PInt (int (length (re_split_sentences text)))),
        (''paragraph_count'',
           PInt (int (length (filter (\<lambda>p. strip p \<noteq> []) (split_paragraphs text))))),
        (''financial_terms'', PInt (count_terms text_lower financial)),
        (''market_terms'', PInt (count_terms text_lower market)),
        (''strategy_terms'', PInt (count_terms text_lower strategy)),
        (''team_terms'', PInt (count_terms text_lower team)),
        (''product_terms'', PInt (count_terms text_lower product)),
        (''risk_terms'', PInt (count_terms text_lower risk)),
        (''has_sections'', PBool (check_sections text)),
        (''has_numbers'', PInt (int (findall_count pat_digits text))),
        (''has_percentages'', PInt (int (findall_count pat_percent text))),
        (''has_currency'', PInt (int (findall_count pat_currency text))),
        (''professional_terms'', PInt (count_terms text_lower professional)),
        (''positive_sentiment'', PInt (count_terms text_lower positive)),
        (''negative_sentiment'', PInt (count_terms text_lower negative))]))))))))))"

subsection \<open>Criterion evaluation\<close>

text \<open>
  The loop over \<^verbatim>\<open>criterion.sub_criteria\<close>, with the list \<^verbatim>\<open>sub_scores\<close> built so far
  (\<open>scores\<close>). The division by \<^verbatim>\<open>criterion.max_points\<close> raises when that is 0.
\<close>

fun sub_scores_loop ::
  "rat \<Rightarrow> evaluation_criterion \<Rightarrow> sub_criterion list \<Rightarrow> sub_score list
    \<Rightarrow> py_error + sub_score list" where
  "sub_scores_loop team_score criterion [] scores = Inr scores"
| "sub_scores_loop team_score criterion (sub # rest) scores =
     (if c_max_points criterion = 0 then Inl ZeroDivisionError
      else
        (let sub_score = (team_score / of_int (c_max_points criterion)) * of_int (sub_points sub)
         in sub_scores_loop team_score criterion rest
              (scores @ [\<lparr>ss_name = sub_name sub,
                          ss_max_points = sub_points sub,
                          ss_earned_points = sub_score,
                          ss_description = sub_description sub\<rparr>])))"

definition evaluate_criterion_with_rules ::
  "evaluation_criterion \<Rightarrow> string \<Rightarrow> feature_bag \<Rightarrow> py_error + evaluation_result" where
  "evaluate_criterion_with_rules criterion text analysis_data =
     (let text_lower = lower text;
          cap = (of_int (c_max_points criterion) :: rat)
      in
      err_bind
        (if c_id criterion = 1 then
           err_bind (bag_item analysis_data ''team_terms'') (\<lambda>team_terms.
           Inr (min (of_int team_terms * (3 / 10)) cap,
                ''Team indicators found: '' @ str_int team_terms))
         else if c_id criterion = 2 then
           (let problem_indicators =
                  int (str_count text_lower (''probl'' @ e_grave @ ''me''))
                  + int (str_count text_lower ''problem'')
                  + int (str_count text_lower ''besoin'')
            in Inr (min (of_int (problem_indicators * 2)) cap,
                    ''Problem indicators: '' @ str_int problem_indicators))
         else if c_id criterion = 4 then
           (let solution_score =
                  int (str_count text_lower ''solution'')
                  + int (str_count text_lower ''innovation'')
            in Inr (min (of_int solution_score * (3 / 2)) cap,
                    ''Solution indicators: '' @ str_int solution_score))
         else if c_id criterion = 10 then
           err_bind (bag_item analysis_data ''financial_terms'') (\<lambda>financial_terms.
           err_bind (bag_item analysis_data ''has_currency'') (\<lambda>has_currency.
           (let business_score = financial_terms + (if 0 < has_currency then 1 else 0) * 3
            in Inr (min (of_int business_score * (4 / 5)) cap,
                    ''Business model indicators: '' @ str_int business_score))))
         else if c_id criterion = 11 then
           err_bind (bag_item analysis_data ''financial_terms'') (\<lambda>financial_terms.
           err_bind (bag_item analysis_data ''has_currency'') (\<lambda>has_currency.
           err_bind (bag_item analysis_data ''has_percentages'') (\<lambda>has_percentages.
           (let financial_score = financial_terms + has_currency + has_percentages
            in Inr (min (of_int financial_score * (3 / 5)) cap,
                    ''Financial indicators: '' @ str_int financial_score)))))
         else
           (let relevant_terms =
                  bag_get analysis_data
                    (''criterion_'' @ str_int (c_id criterion) @ ''_terms'') 0
            in Inr (min (of_int relevant_terms * 1) cap,
                    ''Generic scoring based on relevance'')))
        (\<lambda>(team_score, reasoning).
           err_bind (sub_scores_loop team_score criterion (c_sub_criteria criterion) [])
             (\<lambda>sub_scores.
                Inr \<lparr>criterion_id = c_id criterion,
                     criterion_name = c_name criterion,
                     max_points = c_max_points criterion,
                     earned_points = team_score,
                     reasoning = reasoning,
                     sub_scores = sub_scores\<rparr>)))"

subsection \<open>Recommendations\<close>

text \<open>The keys of \<^verbatim>\<open>recommendations_map\<close>.\<close>

definition recommendations_map_keys :: "int list" where
  "recommendations_map_keys = [1, 2, 3, 4, 5, 6, 7, 8, 9, 10, 11, 12]"

text \<open>\<open>None\<close> is Python's \<^verbatim>\<open>None\<close>, returned for an id without a template.\<close>

definition generate_specific_recommendation ::
  "weak_criterion \<Rightarrow> feature_bag \<Rightarrow> recommendation option" where
  "generate_specific_recommendation weak_criterion analysis_data =
     (let criterion_id = w_id weak_criterion;
          performance = w_performance weak_criterion;
          priority =
            (if 10 \<le> w_max_points weak_criterion \<and> performance < 40 then CRITIQUE
             else if 10 \<le> w_max_points weak_criterion \<or> performance < 50 then HAUTE
             else if performance < 60 then MOYENNE
             else FAIBLE)
      in if criterion_id \<in> set recommendations_map_keys
         then Some (Specific priority criterion_id (w_points weak_criterion)
                      (w_max_points weak_criterion))
         else None)"

definition generate_general_recommendations ::
  "feature_bag \<Rightarrow> evaluation_result list \<Rightarrow> py_error + recommendation list" where
  "generate_general_recommendations analysis_data results =
     (let total_score = (\<Sum>cr\<leftarrow>results. earned_points cr) in
      err_bind (bag_item analysis_data ''word_count'') (\<lambda>word_count.
      err_bind (bag_item analysis_data ''has_currency'') (\<lambda>has_currency.
      (let recs1 = (if word_count < 1500
                    then [General MOYENNE Developpement_du_business_plan] else []);
           recs2 = (if has_currency = 0
                    then recs1 @ [General HAUTE Ajout_d_elements_financiers] else recs1);
           recs3 = (if total_score < 40
                    then recs2 @ [General CRITIQUE Retravailler_les_fondamentaux] else recs2)
       in err_bind (bag_item analysis_data ''professional_terms'') (\<lambda>professional_terms.
          Inr (if professional_terms < 5
               then recs3 @ [General MOYENNE Professionnalisation_du_discours]
               else recs3))))))"

text \<open>The first loop of the generator: the criteria below 70 percent, in the order met.\<close>

fun weak_loop :: "evaluation_result list \<Rightarrow> weak_criterion list \<Rightarrow> weak_criterion list" where
  "weak_loop [] weak_criteria = weak_criteria"
| "weak_loop (cr # rest) weak_criteria =
     (let performance_pct =
            (if 0 < max_points cr
             then (earned_points cr / of_int (max_points cr)) * 100 else 0)
      in if performance_pct < 70
         then weak_loop rest
                (weak_criteria @ [\<lparr>w_id = criterion_id cr,
                                   w_name = criterion_name cr,
                                   w_performance = performance_pct,
                                   w_points = earned_points cr,
                                   w_max_points = max_points cr\<rparr>])
         else weak_loop rest weak_criteria)"

text \<open>
  The sort key of \<^verbatim>\<open>weak_criteria.sort\<close>, a pair that Python compares lexicographically.
\<close>

definition sort_key_of :: "weak_criterion \<Rightarrow> rat \<times> int" where
  "sort_key_of x = (of_int (w_max_points x) * (70 - w_performance x), w_max_points x)"

text \<open>
  \<^verbatim>\<open>list.sort(key=..., reverse=True)\<close>: descending, and stable, that is, entries with equal
  keys stay in the order they had. The library's \<^const>\<open>sort_key\<close> is the stable
  ascending sort.
\<close>

definition sort_reverse :: "('a \<Rightarrow> 'k::linorder) \<Rightarrow> 'a list \<Rightarrow> 'a list" where
  "sort_reverse key xs = rev (sort_key key (rev xs))"

text \<open>The second loop: one recommendation for each of the entries, unless it is \<^verbatim>\<open>None\<close>.\<close>

fun specific_loop ::
  "weak_criterion list \<Rightarrow> feature_bag \<Rightarrow> recommendation list \<Rightarrow> recommendation list" where
  "specific_loop [] analysis_data recs = recs"
| "specific_loop (criterion # rest) analysis_data recs =
     (case generate_specific_recommendation criterion analysis_data of
        None \<Rightarrow> specific_loop rest analysis_data recs
      | Some rec \<Rightarrow> specific_loop rest analysis_data (recs @ [rec]))"

definition generate_rule_based_recommendations ::
  "evaluation_result list \<Rightarrow> feature_bag \<Rightarrow> py_error + recommendation list" where
  "generate_rule_based_recommendations results analysis_data =
     (let weak_criteria = weak_loop results [];
          weak_criteria = sort_reverse sort_key_of weak_criteria;
          recommendations = specific_loop (take 5 weak_criteria) analysis_data []
      in if length recommendations < 3
         then err_bind (generate_general_recommendations analysis_data results)
                (\<lambda>general_recs. Inr (take 6 (recommendations @ general_recs)))
         else Inr (take 6 recommendations))"

subsection \<open>The rule-based analysis\<close>

definition generate_summary :: "rat \<Rightarrow> bool \<Rightarrow> summary_text" where
  "generate_summary score eligible = (if eligible then Accepted score else Refused score)"

text \<open>
  The loop over \<^verbatim>\<open>self.criteria\<close>, with \<^verbatim>\<open>criteria_results\<close> and \<^verbatim>\<open>total_score\<close> so far.
\<close>

fun criteria_loop ::
  "evaluation_criterion list \<Rightarrow> string \<Rightarrow> feature_bag \<Rightarrow> evaluation_result list \<Rightarrow> rat
    \<Rightarrow> py_error + (evaluation_result list \<times> rat)" where
  "criteria_loop [] text analysis_data results score = Inr (results, score)"
| "criteria_loop (criterion # rest) text analysis_data results score =
     (case evaluate_criterion_with_rules criterion text analysis_data of
        Inl e \<Rightarrow> Inl e
      | Inr result \<Rightarrow>
          criteria_loop rest text analysis_data (results @ [result])
            (score + earned_points result))"

definition analyze_with_rules :: "string \<Rightarrow> rat \<Rightarrow> clock \<Rightarrow> py_error + business_plan_analysis" where
  "analyze_with_rules text start_time clk =
     err_bind (perform_comprehensive_analysis text) (\<lambda>analysis_data.
     err_bind (criteria_loop self_criteria text analysis_data [] 0)
       (\<lambda>(criteria_results, total_score).
     (let is_eligible = (of_int self_threshold \<le> total_score);
          summary = generate_summary total_score is_eligible
      in err_bind (generate_rule_based_recommendations criteria_results analysis_data)
       (\<lambda>recommendations.
     (let processing_time = time_now clk - start_time
      in Inr \<lparr>total_score = total_score,
              max_possible_score = 100,
              threshold = self_threshold,
              is_eligible = is_eligible,
              evaluation_date = date_now_iso clk,
              criteria_results = criteria_results,
              summary = summary,
              recommendations = recommendations,
              analysis_method = ''rule_based_comprehensive'',
              confidence_score = 85,
              processing_time = processing_time\<rparr>)))))"

subsection \<open>Notions used in the statements\<close>

text \<open>
  The keys of the dictionary that the extractor builds. A bag is well formed when it has
  exactly these keys, in this order, and no negative value.
\<close>

definition feature_keys :: "string list" where
  "feature_keys = [''text_length'', ''word_count'', ''sentence_count'', ''paragraph_count'',
     ''financial_terms'', ''market_terms'', ''strategy_terms'', ''team_terms'',
     ''product_terms'', ''risk_terms'', ''has_sections'', ''has_numbers'',
     ''has_percentages'', ''has_currency'', ''professional_terms'', ''positive_sentiment'',
     ''negative_sentiment'']"

definition wf_bag :: "feature_bag \<Rightarrow> bool" where
  "wf_bag d = (map fst d = feature_keys \<and> list_all (\<lambda>v. 0 \<le> num_of v) (map snd d))"

text \<open>The number of occurrences of a lexicon category's terms in the lower-cased text.\<close>

definition category_count :: "string \<Rightarrow> string \<Rightarrow> int" where
  "category_count text category =
     count_terms (lower text)
       (case map_of self_business_keywords category of None \<Rightarrow> [] | Some terms \<Rightarrow> terms)"

text \<open>
  The sub-score entry that shares out \<open>earned\<close> points of a criterion to one of its
  sub-criteria, and the result that belongs to a criterion and shares out its own points.
\<close>

definition proportional :: "rat \<Rightarrow> evaluation_criterion \<Rightarrow> sub_criterion \<Rightarrow> sub_score" where
  "proportional earned criterion sub =
     \<lparr>ss_name = sub_name sub,
      ss_max_points = sub_points sub,
      ss_earned_points = (earned / of_int (c_max_points criterion)) * of_int (sub_points sub),
      ss_description = sub_description sub\<rparr>"

definition distributes :: "evaluation_criterion \<Rightarrow> evaluation_result \<Rightarrow> bool" where
  "distributes c r =
     (criterion_id r = c_id c \<and> criterion_name r = c_name c \<and> max_points r = c_max_points c \<and>
      sub_scores r = map (proportional (earned_points r) c) (c_sub_criteria c))"

definition result_ok :: "evaluation_criterion \<Rightarrow> evaluation_result \<Rightarrow> bool" where
  "result_ok c r =
     (distributes c r \<and> 0 \<le> earned_points r \<and> earned_points r \<le> of_int (c_max_points c) \<and>
      (c_id c \<notin> {1, 2, 4, 10, 11} \<longrightarrow> earned_points r = 0))"

text \<open>The points that a text can earn at all for a criterion.\<close>

definition attainable :: "evaluation_criterion \<Rightarrow> rat" where
  "attainable c = (if c_id c \<in> {1, 2, 4, 10, 11} then of_int (c_max_points c) else 0)"

text \<open>The record that \<^verbatim>\<open>_analyze_with_rules\<close> returns for given results and recommendations.\<close>

definition built_analysis ::
  "evaluation_result list \<Rightarrow> recommendation list \<Rightarrow> rat \<Rightarrow> clock \<Rightarrow> business_plan_analysis" where
  "built_analysis rs recs start_time clk =
     \<lparr>total_score = sum_list (map earned_points rs),
      max_possible_score = 100,
      threshold = self_threshold,
      is_eligible = (of_int self_threshold \<le> sum_list (map earned_points rs)),
      evaluation_date = date_now_iso clk,
      criteria_results = rs,
      summary = generate_summary (sum_list (map earned_points rs))
                  (of_int self_threshold \<le> sum_list (map earned_points rs)),
      recommendations = recs,
      analysis_method = ''rule_based_comprehensive'',
      confidence_score = 85,
      processing_time = time_now clk - start_time\<rparr>"

text \<open>
  The generator's \<^verbatim>\<open>performance_pct\<close> of a result, the entry it appends to
  \<^verbatim>\<open>weak_criteria\<close>, the weighted deficit it sorts by, and the order of the ranking: a
  greater deficit first, and among equal deficits the greater \<^verbatim>\<open>max_points\<close> first.
\<close>

definition performance_pct :: "evaluation_result \<Rightarrow> rat" where
  "performance_pct cr =
     (if 0 < max_points cr then (earned_points cr / of_int (max_points cr)) * 100 else 0)"

definition weak_entry :: "evaluation_result \<Rightarrow> weak_criterion" where
  "weak_entry cr =
     \<lparr>w_id = criterion_id cr,
      w_name = criterion_name cr,
      w_performance = performance_pct cr,
      w_points = earned_points cr,
      w_max_points = max_points cr\<rparr>"

definition deficit :: "weak_criterion \<Rightarrow> rat" where
  "deficit x = of_int (w_max_points x) * (70 - w_performance x)"

definition ranks_before :: "weak_criterion \<Rightarrow> weak_criterion \<Rightarrow> bool" where
  "ranks_before x y =
     (deficit y < deficit x \<or> (deficit x = deficit y \<and> w_max_points y \<le> w_max_points x))"

text \<open>Sample inputs: a clock, a short plan, and a plan of 500 sentences of ten words.\<close>

definition sample_clock :: clock where
  "sample_clock = \<lparr>time_now = 2, date_now_iso = ''2025-01-01T12:00:00''\<rparr>"

definition sample_plan :: string where
  "sample_plan = ''Team problem: $5 revenue, 9%''"

definition dense_sentence :: string where
  "dense_sentence =
     ''team problem solution revenue market strategy risk analysis strong weak ''"

definition dense_plan :: string where
  "dense_plan = concat (replicate 500 dense_sentence)"

definition empty_text_bag :: feature_bag where
  "empty_text_bag =
     [(''text_length'', PInt 0), (''word_count'', PInt 0), (''sentence_count'', PInt 1),
      (''paragraph_count'', PInt 0), (''financial_terms'', PInt 0), (''market_terms'', PInt 0),
      (''strategy_terms'', PInt 0), (''team_terms'', PInt 0), (''product_terms'', PInt 0),
      (''risk_terms'', PInt 0), (''has_sections'', PBool False), (''has_numbers'', PInt 0),
      (''has_percentages'', PInt 0), (''has_currency'', PInt 0),
      (''professional_terms'', PInt 0), (''positive_sentiment'', PInt 0),
      (''negative_sentiment'', PInt 0)]"

definition sample_results :: "evaluation_result list" where
  "sample_results =
     [\<lparr>criterion_id = 3, criterion_name = ''A'', max_points = 5, earned_points = 4,
       reasoning = [], sub_scores = []\<rparr>,
      \<lparr>criterion_id = 1, criterion_name = ''B'', max_points = 10, earned_points = 2,
       reasoning = [], sub_scores = []\<rparr>,
      \<lparr>criterion_id = 5, criterion_name = ''C'', max_points = 5, earned_points = 1,
       reasoning = [], sub_scores = []\<rparr>]"

section \<open>Properties of the engine\<close>

subsection \<open>The extractor, the evaluator and the loop\<close>


lemma err_bind_Inr [simp]: "err_bind (Inr x) f = f x"
  by (simp add: err_bind_def)

lemma err_bind_Inl [simp]: "err_bind (Inl e) f = Inl e"
  by (simp add: err_bind_def)

lemma count_terms_nonneg: "0 \<le> count_terms text terms"
  unfolding count_terms_def by (rule sum_list_nonneg) auto

lemma perform_wf: "\<exists>d. perform_comprehensive_analysis text = Inr d \<and> wf_bag d"
  by (simp add: perform_comprehensive_analysis_def keywords_item_def
      self_business_keywords_def load_business_keywords_def wf_bag_def feature_keys_def
      count_terms_nonneg Let_def)

lemma wf_bag_keys: "wf_bag d \<Longrightarrow> fst ` set d = set feature_keys"
  unfolding wf_bag_def by (metis list.set_map)

lemma wf_bag_nonneg: "wf_bag d \<Longrightarrow> (k, v) \<in> set d \<Longrightarrow> 0 \<le> num_of v"
  unfolding wf_bag_def list_all_iff by force

lemma bag_item_wf:
  assumes "wf_bag d" and "k \<in> set feature_keys"
  shows "\<exists>n. bag_item d k = Inr n \<and> 0 \<le> n"
proof -
  from assms have "k \<in> fst ` set d"
    by (simp add: wf_bag_keys)
  then have "map_of d k \<noteq> None"
    by (simp add: map_of_eq_None_iff)
  then obtain v where v: "map_of d k = Some v"
    by blast
  then have "(k, v) \<in> set d"
    by (rule map_of_SomeD)
  with assms(1) have "0 \<le> num_of v"
    by (rule wf_bag_nonneg)
  with v show ?thesis by (simp add: bag_item_def)
qed

lemma generic_key_absent:
  assumes "wf_bag d"
  shows "map_of d (''criterion_'' @ s @ ''_terms'') = None"
proof -
  have "(''criterion_'' @ s @ ''_terms'') \<notin> set feature_keys"
    by (simp add: feature_keys_def)
  with wf_bag_keys [OF assms] have "(''criterion_'' @ s @ ''_terms'') \<notin> fst ` set d"
    by blast
  then show ?thesis
    by (rule iffD2 [OF map_of_eq_None_iff])
qed

lemma bag_get_generic: "wf_bag d \<Longrightarrow> bag_get d (''criterion_'' @ s @ ''_terms'') dflt = dflt"
  by (simp only: bag_get_def generic_key_absent option.case)

lemma sub_scores_loop_map:
  "c_max_points c \<noteq> 0 \<Longrightarrow>
     sub_scores_loop e c subs acc = Inr (acc @ map (proportional e c) subs)"
  by (induction subs arbitrary: acc) (simp_all add: proportional_def)


lemma evaluate_team:
  assumes "c_id c = 1" and "c_max_points c \<noteq> 0" and "bag_item d ''team_terms'' = Inr n"
  shows "\<exists>r. evaluate_criterion_with_rules c text d = Inr r \<and> distributes c r \<and>
             earned_points r = min (of_int n * (3 / 10)) (of_int (c_max_points c))"
  using assms
  by (simp add: evaluate_criterion_with_rules_def Let_def sub_scores_loop_map distributes_def)

lemma evaluate_problem:
  assumes "c_id c = 2" and "c_max_points c \<noteq> 0"
  shows "\<exists>r. evaluate_criterion_with_rules c text d = Inr r \<and> distributes c r \<and>
             earned_points r =
               min (of_int ((int (str_count (lower text) (''probl'' @ e_grave @ ''me''))
                             + int (str_count (lower text) ''problem'')
                             + int (str_count (lower text) ''besoin'')) * 2))
                   (of_int (c_max_points c))"
  using assms
  by (simp add: evaluate_criterion_with_rules_def Let_def sub_scores_loop_map distributes_def)

lemma evaluate_solution:
  assumes "c_id c = 4" and "c_max_points c \<noteq> 0"
  shows "\<exists>r. evaluate_criterion_with_rules c text d = Inr r \<and> distributes c r \<and>
             earned_points r =
               min (of_int (int (str_count (lower text) ''solution'')
                            + int (str_count (lower text) ''innovation'')) * (3 / 2))
                   (of_int (c_max_points c))"
  using assms
  by (simp add: evaluate_criterion_with_rules_def Let_def sub_scores_loop_map distributes_def)

lemma evaluate_business:
  assumes "c_id c = 10" and "c_max_points c \<noteq> 0"
    and "bag_item d ''financial_terms'' = Inr f" and "bag_item d ''has_currency'' = Inr h"
  shows "\<exists>r. evaluate_criterion_with_rules c text d = Inr r \<and> distributes c r \<and>
             earned_points r =
               min (of_int (f + (if 0 < h then 1 else 0) * 3) * (4 / 5)) (of_int (c_max_points c))"
  using assms
  by (simp add: evaluate_criterion_with_rules_def Let_def sub_scores_loop_map distributes_def)

lemma evaluate_financing:
  assumes "c_id c = 11" and "c_max_points c \<noteq> 0"
    and "bag_item d ''financial_terms'' = Inr f" and "bag_item d ''has_currency'' = Inr h"
    and "bag_item d ''has_percentages'' = Inr p"
  shows "\<exists>r. evaluate_criterion_with_rules c text d = Inr r \<and> distributes c r \<and>
             earned_points r = min (of_int (f + h + p) * (3 / 5)) (of_int (c_max_points c))"
  using assms
  by (simp add: evaluate_criterion_with_rules_def Let_def sub_scores_loop_map distributes_def)

lemma evaluate_generic:
  assumes "c_id c \<notin> {1, 2, 4, 10, 11}" and "c_max_points c \<noteq> 0"
  shows "\<exists>r. evaluate_criterion_with_rules c text d = Inr r \<and> distributes c r \<and>
             earned_points r =
               min (of_int (bag_get d (''criterion_'' @ str_int (c_id c) @ ''_terms'') 0))
                   (of_int (c_max_points c))"
  using assms
  by (simp add: evaluate_criterion_with_rules_def Let_def sub_scores_loop_map distributes_def)


lemma feature_keys_mem:
  "''team_terms'' \<in> set feature_keys" "''financial_terms'' \<in> set feature_keys"
  "''has_currency'' \<in> set feature_keys" "''has_percentages'' \<in> set feature_keys"
  "''word_count'' \<in> set feature_keys" "''professional_terms'' \<in> set feature_keys"
  by (simp_all add: feature_keys_def)

lemma result_okI:
  assumes "\<exists>r. evaluate_criterion_with_rules c text d = Inr r \<and> distributes c r \<and>
               earned_points r = min x (of_int (c_max_points c))"
    and "0 \<le> x" and "0 < c_max_points c" and "c_id c \<notin> {1, 2, 4, 10, 11} \<longrightarrow> x = 0"
  shows "\<exists>r. evaluate_criterion_with_rules c text d = Inr r \<and> result_ok c r"
proof -
  from assms(1) obtain r where r: "evaluate_criterion_with_rules c text d = Inr r"
    "distributes c r" "earned_points r = min x (of_int (c_max_points c))"
    by blast
  from assms(2,3) r(3) have "0 \<le> earned_points r" "earned_points r \<le> of_int (c_max_points c)"
    by simp_all
  moreover from assms(3,4) r(3) have "c_id c \<notin> {1, 2, 4, 10, 11} \<longrightarrow> earned_points r = 0"
    by simp
  ultimately have "result_ok c r"
    using r(2) by (simp add: result_ok_def)
  with r(1) show ?thesis by blast
qed

lemma evaluate_wf:
  assumes wf: "wf_bag d" and pos: "0 < c_max_points c"
  shows "\<exists>r. evaluate_criterion_with_rules c text d = Inr r \<and> result_ok c r"
proof -
  from pos have nz: "c_max_points c \<noteq> 0" by simp
  obtain t where t: "bag_item d ''team_terms'' = Inr t" "0 \<le> t"
    using bag_item_wf [OF wf feature_keys_mem(1)] by blast
  obtain f where f: "bag_item d ''financial_terms'' = Inr f" "0 \<le> f"
    using bag_item_wf [OF wf feature_keys_mem(2)] by blast
  obtain h where h: "bag_item d ''has_currency'' = Inr h" "0 \<le> h"
    using bag_item_wf [OF wf feature_keys_mem(3)] by blast
  obtain p where p: "bag_item d ''has_percentages'' = Inr p" "0 \<le> p"
    using bag_item_wf [OF wf feature_keys_mem(4)] by blast
  consider "c_id c = 1" | "c_id c = 2" | "c_id c = 4" | "c_id c = 10" | "c_id c = 11"
    | "c_id c \<notin> {1, 2, 4, 10, 11}"
    by auto
  then show ?thesis
  proof cases
    case 1
    show ?thesis
      by (rule result_okI [OF evaluate_team [OF 1 nz t(1)]]) (use t(2) pos 1 in simp_all)
  next
    case 2
    show ?thesis
      by (rule result_okI [OF evaluate_problem [OF 2 nz]]) (use pos 2 in simp_all)
  next
    case 3
    show ?thesis
      by (rule result_okI [OF evaluate_solution [OF 3 nz]]) (use pos 3 in simp_all)
  next
    case 4
    show ?thesis
      by (rule result_okI [OF evaluate_business [OF 4 nz f(1) h(1)]]) (use f(2) pos 4 in simp_all)
  next
    case 5
    show ?thesis
      by (rule result_okI [OF evaluate_financing [OF 5 nz f(1) h(1) p(1)]])
        (use f(2) h(2) p(2) pos 5 in simp_all)
  next
    case 6
    show ?thesis
      by (rule result_okI [OF evaluate_generic [OF 6 nz]])
        (use pos 6 bag_get_generic [OF wf] in simp_all)
  qed
qed

lemma criteria_loop_results:
  assumes "\<forall>c\<in>set cs. \<exists>r. evaluate_criterion_with_rules c text d = Inr r \<and> P c r"
  shows "\<exists>rs. criteria_loop cs text d acc s = Inr (acc @ rs, s + sum_list (map earned_points rs))
              \<and> list_all2 P cs rs"
  using assms
proof (induction cs arbitrary: acc s)
  case Nil
  then show ?case by simp
next
  case (Cons c cs)
  then obtain r where r: "evaluate_criterion_with_rules c text d = Inr r" "P c r"
    by auto
  from Cons.prems have "\<forall>c\<in>set cs. \<exists>r. evaluate_criterion_with_rules c text d = Inr r \<and> P c r"
    by simp
  from Cons.IH [OF this, of "acc @ [r]" "s + earned_points r"]
  obtain rs where rs:
    "criteria_loop cs text d (acc @ [r]) (s + earned_points r)
       = Inr ((acc @ [r]) @ rs, (s + earned_points r) + sum_list (map earned_points rs))"
    "list_all2 P cs rs"
    by blast
  have "criteria_loop (c # cs) text d acc s
          = Inr (acc @ (r # rs), s + sum_list (map earned_points (r # rs)))"
    using r(1) rs(1) by (simp add: add.assoc)
  moreover have "list_all2 P (c # cs) (r # rs)"
    using r(2) rs(2) by simp
  ultimately show ?case by blast
qed

lemma self_criteria_positive: "\<forall>c\<in>set self_criteria. 0 < c_max_points c"
  by (simp add: self_criteria_def initialize_criteria_def)


lemma self_criteria_max_points:
  "map c_max_points self_criteria = [10, 10, 5, 15, 5, 5, 5, 10, 10, 10, 10, 5]"
  by (simp add: self_criteria_def initialize_criteria_def)

lemma self_criteria_sub_points:
  "\<forall>c\<in>set self_criteria. sum_list (map sub_points (c_sub_criteria c)) = c_max_points c"
  by (simp add: self_criteria_def initialize_criteria_def)


lemma general_recommendations_wf:
  assumes "wf_bag d"
  shows "\<exists>g. generate_general_recommendations d rs = Inr g"
proof -
  obtain w where w: "bag_item d ''word_count'' = Inr w"
    using bag_item_wf [OF assms feature_keys_mem(5)] by blast
  obtain h where h: "bag_item d ''has_currency'' = Inr h"
    using bag_item_wf [OF assms feature_keys_mem(3)] by blast
  obtain p where p: "bag_item d ''professional_terms'' = Inr p"
    using bag_item_wf [OF assms feature_keys_mem(6)] by blast
  show ?thesis
    by (simp add: generate_general_recommendations_def Let_def w h p)
qed

lemma recommendations_wf:
  assumes "wf_bag d"
  shows "\<exists>recs. generate_rule_based_recommendations rs d = Inr recs"
proof -
  obtain g where "generate_general_recommendations d rs = Inr g"
    using general_recommendations_wf [OF assms] by blast
  then show ?thesis
    by (simp add: generate_rule_based_recommendations_def Let_def)
qed

lemma recommendations_at_most_6:
  assumes "generate_rule_based_recommendations rs d = Inr recs"
  shows "length recs \<le> 6"
proof (cases "generate_general_recommendations d rs")
  case (Inl e)
  with assms show ?thesis
    by (auto simp: generate_rule_based_recommendations_def Let_def split: if_splits)
next
  case (Inr g)
  with assms show ?thesis
    by (auto simp: generate_rule_based_recommendations_def Let_def split: if_splits)
qed

lemma analyze_shape:
  assumes "\<And>d. perform_comprehensive_analysis text = Inr d \<Longrightarrow> wf_bag d \<Longrightarrow>
             \<forall>c\<in>set self_criteria. \<exists>r. evaluate_criterion_with_rules c text d = Inr r \<and> P c r"
  shows "\<exists>d rs recs.
      perform_comprehensive_analysis text = Inr d \<and> wf_bag d \<and>
      list_all2 P self_criteria rs \<and>
      generate_rule_based_recommendations rs d = Inr recs \<and>
      analyze_with_rules text start_time clk = Inr (built_analysis rs recs start_time clk)"
proof -
  obtain d where d: "perform_comprehensive_analysis text = Inr d" "wf_bag d"
    using perform_wf by blast
  from criteria_loop_results [OF assms [OF d], of "[]" 0]
  obtain rs where rs:
    "criteria_loop self_criteria text d [] 0 = Inr (rs, sum_list (map earned_points rs))"
    "list_all2 P self_criteria rs"
    by auto
  obtain recs where recs: "generate_rule_based_recommendations rs d = Inr recs"
    using recommendations_wf [OF d(2)] by blast
  have "analyze_with_rules text start_time clk = Inr (built_analysis rs recs start_time clk)"
    by (simp add: analyze_with_rules_def built_analysis_def d(1) rs(1) recs Let_def)
  with d rs(2) recs show ?thesis by blast
qed

lemma analyze_ok:
  "\<exists>d rs recs.
      perform_comprehensive_analysis text = Inr d \<and> wf_bag d \<and>
      list_all2 result_ok self_criteria rs \<and>
      generate_rule_based_recommendations rs d = Inr recs \<and>
      analyze_with_rules text start_time clk = Inr (built_analysis rs recs start_time clk)"
proof (rule analyze_shape)
  fix d
  assume "wf_bag d"
  then show "\<forall>c\<in>set self_criteria. \<exists>r. evaluate_criterion_with_rules c text d = Inr r \<and> result_ok c r"
    using evaluate_wf self_criteria_positive by blast
qed

lemma built_analysis_simps [simp]:
  "total_score (built_analysis rs recs start_time clk) = sum_list (map earned_points rs)"
  "threshold (built_analysis rs recs start_time clk) = self_threshold"
  "is_eligible (built_analysis rs recs start_time clk)
     = (of_int self_threshold \<le> sum_list (map earned_points rs))"
  "criteria_results (built_analysis rs recs start_time clk) = rs"
  "recommendations (built_analysis rs recs start_time clk) = recs"
  by (simp_all add: built_analysis_def)

lemma sum_list_bounded:
  "list_all2 (\<lambda>c r. earned_points r \<le> b c) cs rs \<Longrightarrow>
     sum_list (map earned_points rs) \<le> sum_list (map b cs)"
  by (induction cs rs rule: list_all2_induct) (simp_all add: add_mono)

lemma result_ok_attainable: "result_ok c r \<Longrightarrow> earned_points r \<le> attainable c"
  by (auto simp: result_ok_def attainable_def)

lemma attainable_total: "sum_list (map attainable self_criteria) = 55"
  by (simp add: self_criteria_def initialize_criteria_def attainable_def)

lemma total_at_most_55:
  assumes "list_all2 result_ok self_criteria rs"
  shows "sum_list (map earned_points rs) \<le> 55"
proof -
  from assms have "list_all2 (\<lambda>c r. earned_points r \<le> attainable c) self_criteria rs"
    by (rule list_all2_mono) (rule result_ok_attainable)
  then have "sum_list (map earned_points rs) \<le> sum_list (map attainable self_criteria)"
    by (rule sum_list_bounded)
  then show ?thesis by (simp add: attainable_total)
qed

lemma list_all2_set2: "list_all2 P xs ys \<Longrightarrow> y \<in> set ys \<Longrightarrow> \<exists>x\<in>set xs. P x y"
  by (induction rule: list_all2_induct) auto

lemma analysis_facts:
  assumes "analyze_with_rules text start_time clk = Inr r"
  shows "list_all2 result_ok self_criteria (criteria_results r)"
    and "total_score r = sum_list (map earned_points (criteria_results r))"
    and "is_eligible r = (of_int self_threshold \<le> total_score r)"
    and "threshold r = self_threshold"
proof -
  obtain d rs recs where "list_all2 result_ok self_criteria rs"
    and "analyze_with_rules text start_time clk = Inr (built_analysis rs recs start_time clk)"
    using analyze_ok by blast
  with assms have ok: "list_all2 result_ok self_criteria rs"
    and r: "r = built_analysis rs recs start_time clk"
    by simp_all
  from ok r show "list_all2 result_ok self_criteria (criteria_results r)" by simp
  from r show "total_score r = sum_list (map earned_points (criteria_results r))" by simp
  from r show "is_eligible r = (of_int self_threshold \<le> total_score r)" by simp
  from r show "threshold r = self_threshold" by simp
qed

lemma analysis_returns: "\<exists>r. analyze_with_rules text start_time clk = Inr r"
  using analyze_ok by blast


lemma result_ok_max_points:
  "list_all2 result_ok cs rs \<Longrightarrow> map max_points rs = map c_max_points cs"
  by (induction rule: list_all2_induct) (simp_all add: result_ok_def distributes_def)

subsection \<open>Sharing out the points\<close>

lemma sum_list_scaled:
  "(\<Sum>s\<leftarrow>subs. k * rat_of_int (sub_points s)) = k * rat_of_int (sum_list (map sub_points subs))"
  by (induction subs) (simp_all add: algebra_simps)

lemma proportional_sum:
  assumes "c_max_points c \<noteq> 0" and "sum_list (map sub_points subs) = c_max_points c"
  shows "sum_list (map ss_earned_points (map (proportional e c) subs)) = e"
proof -
  have "sum_list (map ss_earned_points (map (proportional e c) subs))
          = (\<Sum>s\<leftarrow>subs. (e / of_int (c_max_points c)) * rat_of_int (sub_points s))"
    by (simp add: proportional_def comp_def)
  also have "\<dots> = (e / of_int (c_max_points c)) * rat_of_int (sum_list (map sub_points subs))"
    by (rule sum_list_scaled)
  also have "\<dots> = e"
    using assms by simp
  finally show ?thesis .
qed

lemma proportional_entry:
  assumes "s \<in> set (map (proportional e c) subs)"
  shows "ss_earned_points s = e * (of_int (ss_max_points s) / of_int (c_max_points c))"
  using assms by (auto simp: proportional_def)

subsection \<open>The dense plan\<close>

lemma lower_repeated:
  "lower (concat (replicate n dense_sentence)) = concat (replicate n dense_sentence)"
  by (simp add: lower_def map_concat lower_char_def dense_sentence_def)

lemma count_scan_dense_sentence:
  "count_scan 0 ''team'' (dense_sentence @ rest) = 1 + count_scan 0 ''team'' rest"
  "count_scan 0 ''problem'' (dense_sentence @ rest) = 1 + count_scan 0 ''problem'' rest"
  "count_scan 0 ''solution'' (dense_sentence @ rest) = 1 + count_scan 0 ''solution'' rest"
  "count_scan 0 ''revenue'' (dense_sentence @ rest) = 1 + count_scan 0 ''revenue'' rest"
  "count_scan 0 ''market'' (dense_sentence @ rest) = 1 + count_scan 0 ''market'' rest"
  "count_scan 0 ''strategy'' (dense_sentence @ rest) = 1 + count_scan 0 ''strategy'' rest"
  "count_scan 0 ''risk'' (dense_sentence @ rest) = 1 + count_scan 0 ''risk'' rest"
  "count_scan 0 ''analysis'' (dense_sentence @ rest) = 1 + count_scan 0 ''analysis'' rest"
  "count_scan 0 ''strong'' (dense_sentence @ rest) = 1 + count_scan 0 ''strong'' rest"
  "count_scan 0 ''weak'' (dense_sentence @ rest) = 1 + count_scan 0 ''weak'' rest"
  by (simp_all add: dense_sentence_def)

lemma count_scan_repeated:
  "count_scan 0 ''team'' (concat (replicate n dense_sentence)) = n"
  "count_scan 0 ''problem'' (concat (replicate n dense_sentence)) = n"
  "count_scan 0 ''solution'' (concat (replicate n dense_sentence)) = n"
  "count_scan 0 ''revenue'' (concat (replicate n dense_sentence)) = n"
  "count_scan 0 ''market'' (concat (replicate n dense_sentence)) = n"
  "count_scan 0 ''strategy'' (concat (replicate n dense_sentence)) = n"
  "count_scan 0 ''risk'' (concat (replicate n dense_sentence)) = n"
  "count_scan 0 ''analysis'' (concat (replicate n dense_sentence)) = n"
  "count_scan 0 ''strong'' (concat (replicate n dense_sentence)) = n"
  "count_scan 0 ''weak'' (concat (replicate n dense_sentence)) = n"
  by (induction n) (simp_all add: count_scan_dense_sentence)

lemma dense_plan_counts:
  "str_count (lower dense_plan) ''team'' = 500"
  "str_count (lower dense_plan) ''problem'' = 500"
  "str_count (lower dense_plan) ''solution'' = 500"
  "str_count (lower dense_plan) ''revenue'' = 500"
  "str_count (lower dense_plan) ''market'' = 500"
  "str_count (lower dense_plan) ''strategy'' = 500"
  "str_count (lower dense_plan) ''risk'' = 500"
  "str_count (lower dense_plan) ''analysis'' = 500"
  "str_count (lower dense_plan) ''strong'' = 500"
  "str_count (lower dense_plan) ''weak'' = 500"
  by (simp_all add: str_count_def dense_plan_def lower_repeated count_scan_repeated)

lemma split_ws_dense_sentence:
  "split_ws [] (dense_sentence @ rest) =
     [''team'', ''problem'', ''solution'', ''revenue'', ''market'', ''strategy'', ''risk'',
      ''analysis'', ''strong'', ''weak''] @ split_ws [] rest"
  by (simp add: dense_sentence_def is_space_def)

lemma split_ws_repeated:
  "length (split_ws [] (concat (replicate n dense_sentence))) = 10 * n"
  by (induction n) (simp_all add: split_ws_dense_sentence)

lemma dense_plan_words: "length (str_split dense_plan) = 5000"
  by (simp add: str_split_def dense_plan_def split_ws_repeated)

lemma count_terms_ge: "t \<in> set terms \<Longrightarrow> int (str_count text t) \<le> count_terms text terms"
proof (induction terms)
  case Nil
  then show ?case by simp
next
  case (Cons a terms)
  have "count_terms text (a # terms) = int (str_count text a) + count_terms text terms"
    by (simp add: count_terms_def)
  with Cons count_terms_nonneg [of "text" "terms"] show ?case by auto
qed

lemma category_count_ge:
  assumes "map_of self_business_keywords category = Some terms" and "t \<in> set terms"
  shows "int (str_count (lower text) t) \<le> category_count text category"
  using assms count_terms_ge [of t terms "lower text"] by (simp add: category_count_def)

lemma dense_plan_categories:
  "500 \<le> category_count dense_plan ''financial''"
  "500 \<le> category_count dense_plan ''market''"
  "500 \<le> category_count dense_plan ''strategy''"
  "500 \<le> category_count dense_plan ''team''"
  "500 \<le> category_count dense_plan ''product''"
  "500 \<le> category_count dense_plan ''risk''"
  "500 \<le> category_count dense_plan ''professional''"
  "500 \<le> category_count dense_plan ''positive''"
  "500 \<le> category_count dense_plan ''negative''"
proof -
  note kw = self_business_keywords_def load_business_keywords_def
  show "500 \<le> category_count dense_plan ''financial''"
    using category_count_ge [of "''financial''" _ "''revenue''" dense_plan]
    by (simp add: kw dense_plan_counts)
  show "500 \<le> category_count dense_plan ''market''"
    using category_count_ge [of "''market''" _ "''market''" dense_plan]
    by (simp add: kw dense_plan_counts)
  show "500 \<le> category_count dense_plan ''strategy''"
    using category_count_ge [of "''strategy''" _ "''strategy''" dense_plan]
    by (simp add: kw dense_plan_counts)
  show "500 \<le> category_count dense_plan ''team''"
    using category_count_ge [of "''team''" _ "''team''" dense_plan]
    by (simp add: kw dense_plan_counts)
  show "500 \<le> category_count dense_plan ''product''"
    using category_count_ge [of "''product''" _ "''solution''" dense_plan]
    by (simp add: kw dense_plan_counts)
  show "500 \<le> category_count dense_plan ''risk''"
    using category_count_ge [of "''risk''" _ "''risk''" dense_plan]
    by (simp add: kw dense_plan_counts)
  show "500 \<le> category_count dense_plan ''professional''"
    using category_count_ge [of "''professional''" _ "''analysis''" dense_plan]
    by (simp add: kw dense_plan_counts)
  show "500 \<le> category_count dense_plan ''positive''"
    using category_count_ge [of "''positive''" _ "''strong''" dense_plan]
    by (simp add: kw dense_plan_counts)
  show "500 \<le> category_count dense_plan ''negative''"
    using category_count_ge [of "''negative''" _ "''weak''" dense_plan]
    by (simp add: kw dense_plan_counts)
qed

lemma perform_items:
  assumes "perform_comprehensive_analysis text = Inr d"
  shows "bag_item d ''team_terms'' = Inr (category_count text ''team'')"
    and "bag_item d ''financial_terms'' = Inr (category_count text ''financial'')"
    and "bag_item d ''has_currency'' = Inr (int (findall_count pat_currency text))"
    and "bag_item d ''has_percentages'' = Inr (int (findall_count pat_percent text))"
  using assms
  by (auto simp: perform_comprehensive_analysis_def keywords_item_def category_count_def
      self_business_keywords_def load_business_keywords_def bag_item_def Let_def)

lemma self_criteria_caps: "\<forall>c\<in>set self_criteria. c_max_points c \<le> 15"
  by (simp add: self_criteria_def initialize_criteria_def)

lemma saturated:
  assumes "\<exists>r. evaluate_criterion_with_rules c body d = Inr r \<and> distributes c r \<and>
               earned_points r = min x (of_int (c_max_points c))"
    and "(15::rat) \<le> x" and "c_max_points c \<le> 15" and "c_id c \<in> {1, 2, 4, 10, 11}"
  shows "\<exists>r. evaluate_criterion_with_rules c body d = Inr r \<and> earned_points r = attainable c"
proof -
  from assms(3) have "rat_of_int (c_max_points c) \<le> 15" by linarith
  with assms(2,4) have "min x (of_int (c_max_points c)) = attainable c"
    by (simp add: attainable_def)
  with assms(1) show ?thesis by auto
qed

lemma dense_evaluate:
  assumes d: "perform_comprehensive_analysis dense_plan = Inr d" and wf: "wf_bag d"
    and c: "c \<in> set self_criteria"
  shows "\<exists>r. evaluate_criterion_with_rules c dense_plan d = Inr r \<and> earned_points r = attainable c"
proof -
  from c self_criteria_positive have nz: "c_max_points c \<noteq> 0" by auto
  from c self_criteria_caps have cap: "c_max_points c \<le> 15" by auto
  note items = perform_items [OF d]
  note dense = dense_plan_categories dense_plan_counts
  consider "c_id c = 1" | "c_id c = 2" | "c_id c = 4" | "c_id c = 10" | "c_id c = 11"
    | "c_id c \<notin> {1, 2, 4, 10, 11}"
    by auto
  then show ?thesis
  proof cases
    case 1
    show ?thesis
      by (rule saturated [OF evaluate_team [OF 1 nz items(1)] _ cap])
        (use 1 dense(4) in simp_all)
  next
    case 2
    show ?thesis
      by (rule saturated [OF evaluate_problem [OF 2 nz] _ cap])
        (use 2 in \<open>simp_all add: dense\<close>)
  next
    case 3
    show ?thesis
      by (rule saturated [OF evaluate_solution [OF 3 nz] _ cap])
        (use 3 in \<open>simp_all add: dense\<close>)
  next
    case 4
    show ?thesis
      by (rule saturated [OF evaluate_business [OF 4 nz items(2) items(3)] _ cap])
        (use 4 dense(1) in simp_all)
  next
    case 5
    show ?thesis
      by (rule saturated [OF evaluate_financing [OF 5 nz items(2) items(3) items(4)] _ cap])
        (use 5 dense(1) in simp_all)
  next
    case 6
    have "\<exists>r. evaluate_criterion_with_rules c dense_plan d = Inr r \<and> distributes c r \<and>
              earned_points r =
                min (of_int (bag_get d (''criterion_'' @ str_int (c_id c) @ ''_terms'') 0))
                    (of_int (c_max_points c))"
      by (rule evaluate_generic [OF 6 nz])
    then obtain r where r: "evaluate_criterion_with_rules c dense_plan d = Inr r"
      "earned_points r =
         min (of_int (bag_get d (''criterion_'' @ str_int (c_id c) @ ''_terms'') 0))
             (of_int (c_max_points c))"
      by blast
    have "bag_get d (''criterion_'' @ str_int (c_id c) @ ''_terms'') 0 = 0"
      by (rule bag_get_generic [OF wf])
    moreover from c self_criteria_positive have "(0::rat) \<le> of_int (c_max_points c)"
      by auto
    ultimately have "earned_points r = 0"
      using r(2) by simp
    with r(1) 6 show ?thesis by (auto simp: attainable_def)
  qed
qed

lemma sum_list_attained:
  "list_all2 (\<lambda>c r. earned_points r = attainable c) cs rs \<Longrightarrow>
     sum_list (map earned_points rs) = sum_list (map attainable cs)"
  by (induction rule: list_all2_induct) simp_all

lemma dense_plan_total:
  "\<exists>r. analyze_with_rules dense_plan start_time clk = Inr r \<and> total_score r = 55 \<and> \<not> is_eligible r"
proof -
  have "\<exists>d rs recs.
      perform_comprehensive_analysis dense_plan = Inr d \<and> wf_bag d \<and>
      list_all2 (\<lambda>c r. earned_points r = attainable c) self_criteria rs \<and>
      generate_rule_based_recommendations rs d = Inr recs \<and>
      analyze_with_rules dense_plan start_time clk = Inr (built_analysis rs recs start_time clk)"
    by (rule analyze_shape) (use dense_evaluate in blast)
  then obtain rs recs where rs: "list_all2 (\<lambda>c r. earned_points r = attainable c) self_criteria rs"
    and r: "analyze_with_rules dense_plan start_time clk = Inr (built_analysis rs recs start_time clk)"
    by blast
  from rs have "sum_list (map earned_points rs) = 55"
    by (simp add: sum_list_attained attainable_total)
  with r show ?thesis
    by (simp add: self_threshold_def)
qed

subsection \<open>Ranking the weak criteria\<close>

lemma weak_loop_filter:
  "weak_loop rs acc = acc @ map weak_entry (filter (\<lambda>cr. performance_pct cr < 70) rs)"
  by (induction rs arbitrary: acc) (simp_all add: performance_pct_def weak_entry_def Let_def)

lemma specific_loop_map_filter:
  "specific_loop ws d acc = acc @ List.map_filter (\<lambda>w. generate_specific_recommendation w d) ws"
  by (induction ws arbitrary: acc) (simp_all add: List.map_filter_simps split: option.split)

lemma sort_reverse_mset: "mset (sort_reverse f xs) = mset xs"
  by (simp add: sort_reverse_def)

lemma sort_reverse_sorted: "sorted_wrt (\<lambda>x y. f y \<le> f x) (sort_reverse f xs)"
proof -
  have "sorted (map f (sort_key f (rev xs)))"
    by (rule sorted_sort_key)
  then have "sorted_wrt (\<lambda>x y. f x \<le> f y) (sort_key f (rev xs))"
    by (simp add: sorted_wrt_map)
  then show ?thesis
    by (simp add: sort_reverse_def sorted_wrt_rev)
qed

lemma sort_reverse_stable:
  "filter (\<lambda>x. f x = k) (sort_reverse f xs) = filter (\<lambda>x. f x = k) xs"
proof -
  have "filter (\<lambda>x. f x = k) (sort_key f (rev xs)) = filter (\<lambda>x. f x = k) (rev xs)"
    by (rule sort_key_stable)
  then have "rev (filter (\<lambda>x. f x = k) (sort_key f (rev xs))) = filter (\<lambda>x. f x = k) xs"
    by (simp add: rev_filter)
  then show ?thesis
    by (simp add: sort_reverse_def rev_filter)
qed

lemma sort_key_of_le: "sort_key_of y \<le> sort_key_of x \<longleftrightarrow> ranks_before x y"
  by (auto simp: sort_key_of_def ranks_before_def deficit_def)

lemma ranked_sorted: "sorted_wrt ranks_before (sort_reverse sort_key_of ws)"
  using sort_reverse_sorted [of sort_key_of ws] by (simp add: sort_key_of_le)

lemma recommendations_unfold:
  "generate_rule_based_recommendations rs d =
     (let specific =
            List.map_filter (\<lambda>w. generate_specific_recommendation w d)
              (take 5 (sort_reverse sort_key_of
                         (map weak_entry (filter (\<lambda>cr. performance_pct cr < 70) rs))))
      in if length specific < 3
         then err_bind (generate_general_recommendations d rs)
                (\<lambda>g. Inr (take 6 (specific @ g)))
         else Inr (take 6 specific))"
  by (simp add: generate_rule_based_recommendations_def weak_loop_filter
      specific_loop_map_filter Let_def)

subsection \<open>Evaluation on sample inputs\<close>

lemmas extractor_defs =
  perform_comprehensive_analysis_def keywords_item_def self_business_keywords_def
  load_business_keywords_def count_terms_def str_count_def py_len_def lower_def lower_char_def
  str_split_def re_split_sentences_def split_paragraphs_def strip_def check_sections_def
  findall_count_def pat_digits_def pat_percent_def pat_currency_def currency_sign_len_def
  is_space_def is_digit_def is_continuation_def euro_sign_def pound_sign_def

lemmas evaluator_defs =
  self_criteria_def initialize_criteria_def evaluate_criterion_with_rules_def
  bag_item_def bag_get_def str_count_def lower_def lower_char_def Let_def e_grave_def
  str_int_def nat_digits.simps

lemmas recommendation_defs =
  generate_rule_based_recommendations_def generate_general_recommendations_def
  generate_specific_recommendation_def recommendations_map_keys_def sort_reverse_def
  sort_key_of_def bag_item_def Let_def

lemma empty_text_features: "perform_comprehensive_analysis [] = Inr empty_text_bag"
  by (simp add: extractor_defs empty_text_bag_def)

lemma sample_plan_analysis:
  "\<exists>r. analyze_with_rules sample_plan 0 sample_clock = Inr r \<and>
       map (\<lambda>cr. (criterion_id cr, max_points cr, earned_points cr,
                  map ss_earned_points (sub_scores cr))) (criteria_results r)
         = [(1, 10, 3 / 10, [9 / 100, 3 / 25, 9 / 100]), (2, 10, 2, [1, 1]),
            (3, 5, 0, [0, 0]), (4, 15, 0, [0, 0, 0]), (5, 5, 0, [0, 0]), (6, 5, 0, [0, 0]),
            (7, 5, 0, [0, 0]), (8, 10, 0, [0, 0]), (9, 10, 0, [0, 0, 0]),
            (10, 10, 16 / 5, [8 / 5, 8 / 5]), (11, 10, 9 / 5, [9 / 10, 27 / 50, 9 / 25]),
            (12, 5, 0, [0, 0])] \<and>
       total_score r = 73 / 10 \<and>
       recommendations r =
         [Specific CRITIQUE 4 0 15, Specific CRITIQUE 8 0 10, Specific CRITIQUE 9 0 10,
          Specific CRITIQUE 1 (3 / 10) 10, Specific CRITIQUE 11 (9 / 5) 10]"
  by (simp add: analyze_with_rules_def self_threshold_def generate_summary_def sample_plan_def
      extractor_defs evaluator_defs recommendation_defs)

lemma sample_plan_result:
  assumes "analyze_with_rules sample_plan 0 sample_clock = Inr r"
    and "(i, m, e, subs) \<in> set
         [(1, 10, 3 / 10, [9 / 100, 3 / 25, 9 / 100]), (2, 10, 2, [1, 1]),
          (3, 5, 0, [0, 0]), (4, 15, 0, [0, 0, 0]), (5, 5, 0, [0, 0]), (6, 5, 0, [0, 0]),
          (7, 5, 0, [0, 0]), (8, 10, 0, [0, 0]), (9, 10, 0, [0, 0, 0]),
          (10, 10, 16 / 5, [8 / 5, 8 / 5]), (11, 10, 9 / 5, [9 / 10, 27 / 50, 9 / 25]),
          (12, 5, 0, [0, 0])]"
  shows "\<exists>cr\<in>set (criteria_results r).
           criterion_id cr = i \<and> max_points cr = m \<and> earned_points cr = e \<and>
           map ss_earned_points (sub_scores cr) = subs"
proof -
  from sample_plan_analysis assms(1)
  have "map (\<lambda>cr. (criterion_id cr, max_points cr, earned_points cr,
                  map ss_earned_points (sub_scores cr))) (criteria_results r)
         = [(1, 10, 3 / 10, [9 / 100, 3 / 25, 9 / 100]), (2, 10, 2, [1, 1]),
            (3, 5, 0, [0, 0]), (4, 15, 0, [0, 0, 0]), (5, 5, 0, [0, 0]), (6, 5, 0, [0, 0]),
            (7, 5, 0, [0, 0]), (8, 10, 0, [0, 0]), (9, 10, 0, [0, 0, 0]),
            (10, 10, 16 / 5, [8 / 5, 8 / 5]), (11, 10, 9 / 5, [9 / 10, 27 / 50, 9 / 25]),
            (12, 5, 0, [0, 0])]"
    by force
  with assms(2)
  have "(i, m, e, subs) \<in> set (map (\<lambda>cr. (criterion_id cr, max_points cr, earned_points cr,
                  map ss_earned_points (sub_scores cr))) (criteria_results r))"
    by (simp only:)
  then show ?thesis
    by (simp only: set_map) blast
qed

section \<open>The claims\<close>

text \<open>
  C1. For every text, the rule-based analysis gives 0 points to every criterion other than
  1, 2, 4, 10 and 11: for those the evaluator reads the feature
  \<^verbatim>\<open>criterion_<id>_terms\<close>, and no bag that the extractor builds has such a key. So the
  total score is at most 55 (10 + 10 + 15 + 10 + 10) and no text is eligible.
\<close>

theorem generic_criteria_score_zero:
  "\<exists>d r. perform_comprehensive_analysis text = Inr d
       \<and> (\<forall>i. map_of d (''criterion_'' @ str_int i @ ''_terms'') = None)
       \<and> analyze_with_rules text start_time clk = Inr r
       \<and> (\<forall>cr\<in>set (criteria_results r).
             criterion_id cr \<notin> {1, 2, 4, 10, 11} \<longrightarrow> earned_points cr = 0)
       \<and> total_score r \<le> 55
       \<and> \<not> is_eligible r"
proof -
  obtain d where d: "perform_comprehensive_analysis text = Inr d" "wf_bag d"
    using perform_wf by blast
  obtain r where r: "analyze_with_rules text start_time clk = Inr r"
    using analysis_returns by blast
  note facts = analysis_facts [OF r]
  have absent: "\<forall>i. map_of d (''criterion_'' @ str_int i @ ''_terms'') = None"
    using generic_key_absent [OF d(2)] by blast
  have zero: "\<forall>cr\<in>set (criteria_results r).
                 criterion_id cr \<notin> {1, 2, 4, 10, 11} \<longrightarrow> earned_points cr = 0"
  proof (intro ballI impI)
    fix cr
    assume cr: "cr \<in> set (criteria_results r)"
      and generic: "criterion_id cr \<notin> {1, 2, 4, 10, 11}"
    from list_all2_set2 [OF facts(1) cr] obtain c where "result_ok c cr"
      by blast
    with generic show "earned_points cr = 0"
      by (simp add: result_ok_def distributes_def)
  qed
  have total: "total_score r \<le> 55"
    using total_at_most_55 [OF facts(1)] facts(2) by simp
  then have "\<not> is_eligible r"
    using facts(3) by (simp add: self_threshold_def)
  with d(1) absent r zero total show ?thesis
    by blast
qed

theorem generic_criteria_score_zero_witness:
  "\<exists>r. analyze_with_rules sample_plan 0 sample_clock = Inr r
      \<and> (\<exists>cr\<in>set (criteria_results r). criterion_id cr = 3 \<and> earned_points cr = 0)
      \<and> total_score r \<le> 55
      \<and> \<not> is_eligible r"
proof -
  from generic_criteria_score_zero [of sample_plan 0 sample_clock]
  obtain r where r: "analyze_with_rules sample_plan 0 sample_clock = Inr r"
    and zero: "\<forall>cr\<in>set (criteria_results r).
                 criterion_id cr \<notin> {1, 2, 4, 10, 11} \<longrightarrow> earned_points cr = 0"
    and rest: "total_score r \<le> 55" "\<not> is_eligible r"
    by blast
  from sample_plan_result [OF r, of 3 5 0 "[0, 0]"]
  obtain cr where cr: "cr \<in> set (criteria_results r)" "criterion_id cr = 3"
    by auto
  with zero have "earned_points cr = 0"
    by auto
  with r cr rest show ?thesis
    by blast
qed

text \<open>
  C2, as amended. For every criterion without a rule of its own (ids 3, 5, 6, 7, 8, 9
  and 12) the evaluator's score is the feature \<^verbatim>\<open>criterion_<id>_terms\<close> of the bag it is
  given (0 when the bag has no such key), times 1.0, capped at the criterion's
  \<^verbatim>\<open>max_points\<close>. The number of words of the text is no part of the formula.
\<close>

theorem generic_score_formula:
  assumes "c \<in> set self_criteria" and "c_id c \<in> {3, 5, 6, 7, 8, 9, 12}"
  shows "\<exists>r. evaluate_criterion_with_rules c text d = Inr r
            \<and> earned_points r =
                min (of_int (bag_get d (''criterion_'' @ str_int (c_id c) @ ''_terms'') 0))
                    (of_int (c_max_points c))"
proof -
  from assms(1) self_criteria_positive have nz: "c_max_points c \<noteq> 0"
    by auto
  from assms(2) have generic: "c_id c \<notin> {1, 2, 4, 10, 11}"
    by auto
  from evaluate_generic [OF generic nz] show ?thesis
    by blast
qed

theorem generic_score_formula_witness:
  "self_criteria ! 2 \<in> set self_criteria
     \<and> c_id (self_criteria ! 2) = 3
     \<and> (\<exists>r. evaluate_criterion_with_rules (self_criteria ! 2) sample_plan
                [(''criterion_3_terms'', PInt 2)] = Inr r
              \<and> earned_points r = 2)"
proof -
  have m: "self_criteria ! 2 \<in> set self_criteria"
    by (simp add: self_criteria_def initialize_criteria_def)
  have i: "c_id (self_criteria ! 2) = 3" and cap: "c_max_points (self_criteria ! 2) = 5"
    by (simp_all add: self_criteria_def initialize_criteria_def)
  from i have g: "c_id (self_criteria ! 2) \<in> {3, 5, 6, 7, 8, 9, 12}"
    by simp
  have key: "bag_get [(''criterion_3_terms'', PInt 2)]
               (''criterion_'' @ str_int (c_id (self_criteria ! 2)) @ ''_terms'') 0 = 2"
    by (simp add: i bag_get_def str_int_def nat_digits.simps)
  from generic_score_formula [OF m g, of sample_plan "[(''criterion_3_terms'', PInt 2)]"]
  have "\<exists>r. evaluate_criterion_with_rules (self_criteria ! 2) sample_plan
               [(''criterion_3_terms'', PInt 2)] = Inr r
             \<and> earned_points r = 2"
    by (simp only: key cap) simp
  with m i show ?thesis
    by blast
qed

text \<open>
  C2, as stated, fails: the score of such a criterion is not proportional to the number
  of words. Criterion 3 (5 points at most) earns 0 points on the sample plan of 5 words
  and on the dense plan of 5000 words alike.
\<close>

theorem generic_score_ignores_word_count:
  "c_id (self_criteria ! 2) = 3 \<and> c_max_points (self_criteria ! 2) = 5
     \<and> length (str_split sample_plan) = 5
     \<and> \<not> isl (perform_comprehensive_analysis sample_plan)
     \<and> \<not> isl (evaluate_criterion_with_rules (self_criteria ! 2) sample_plan
                  (projr (perform_comprehensive_analysis sample_plan)))
     \<and> earned_points (projr (evaluate_criterion_with_rules (self_criteria ! 2) sample_plan
                                (projr (perform_comprehensive_analysis sample_plan)))) = 0
     \<and> length (str_split dense_plan) = 5000
     \<and> \<not> isl (perform_comprehensive_analysis dense_plan)
     \<and> \<not> isl (evaluate_criterion_with_rules (self_criteria ! 2) dense_plan
                  (projr (perform_comprehensive_analysis dense_plan)))
     \<and> earned_points (projr (evaluate_criterion_with_rules (self_criteria ! 2) dense_plan
                                (projr (perform_comprehensive_analysis dense_plan)))) = 0"
proof -
  have i: "c_id (self_criteria ! 2) = 3" and cap: "c_max_points (self_criteria ! 2) = 5"
    by (simp_all add: self_criteria_def initialize_criteria_def)
  have scored: "\<not> isl (perform_comprehensive_analysis body)
      \<and> \<not> isl (evaluate_criterion_with_rules (self_criteria ! 2) body
                  (projr (perform_comprehensive_analysis body)))
      \<and> earned_points (projr (evaluate_criterion_with_rules (self_criteria ! 2) body
                                (projr (perform_comprehensive_analysis body)))) = 0"
    for body
  proof -
    obtain d where d: "perform_comprehensive_analysis body = Inr d" "wf_bag d"
      using perform_wf by blast
    have "\<exists>r. evaluate_criterion_with_rules (self_criteria ! 2) body d = Inr r \<and>
              distributes (self_criteria ! 2) r \<and>
              earned_points r =
                min (of_int (bag_get d
                       (''criterion_'' @ str_int (c_id (self_criteria ! 2)) @ ''_terms'') 0))
                    (of_int (c_max_points (self_criteria ! 2)))"
      by (rule evaluate_generic) (simp_all add: i cap)
    then obtain r where r: "evaluate_criterion_with_rules (self_criteria ! 2) body d = Inr r"
      "earned_points r =
         min (of_int (bag_get d
                (''criterion_'' @ str_int (c_id (self_criteria ! 2)) @ ''_terms'') 0))
             (of_int (c_max_points (self_criteria ! 2)))"
      by blast
    have "bag_get d (''criterion_'' @ str_int (c_id (self_criteria ! 2)) @ ''_terms'') 0 = 0"
      by (rule bag_get_generic [OF d(2)])
    with r(2) have "earned_points r = 0"
      by (simp add: cap)
    with d(1) r(1) show ?thesis
      by simp
  qed
  have words: "length (str_split sample_plan) = 5"
    by (simp add: sample_plan_def str_split_def is_space_def)
  from i cap words scored [of sample_plan] dense_plan_words scored [of dense_plan]
  show ?thesis
    by blast
qed

text \<open>
  C3. The dense plan has 5000 words, and each of the nine lexicon categories occurs in it
  at least 500 times. Its total score is 55, below the threshold, and it is not eligible.
\<close>

theorem dense_plan_not_eligible:
  "length (str_split dense_plan) = 5000
     \<and> list_all (\<lambda>category. 500 \<le> category_count dense_plan category)
         (map fst self_business_keywords)
     \<and> (\<exists>r. analyze_with_rules dense_plan start_time clk = Inr r
              \<and> total_score r = 55 \<and> \<not> is_eligible r)"
proof -
  have "list_all (\<lambda>category. 500 \<le> category_count dense_plan category)
          [''financial'', ''market'', ''strategy'', ''team'', ''product'', ''risk'',
           ''professional'', ''positive'', ''negative'']"
    using dense_plan_categories by simp
  moreover have "map fst self_business_keywords =
          [''financial'', ''market'', ''strategy'', ''team'', ''product'', ''risk'',
           ''professional'', ''positive'', ''negative'']"
    by (simp add: self_business_keywords_def load_business_keywords_def)
  ultimately show ?thesis
    using dense_plan_words dense_plan_total by simp
qed

text \<open>
  C4. For every text, the result is eligible exactly when its total score is at least 60,
  the threshold that the analyzer fixes when it is set up.
\<close>

theorem eligibility_iff_threshold:
  "\<exists>r. analyze_with_rules text start_time clk = Inr r
      \<and> is_eligible r = (60 \<le> total_score r)
      \<and> threshold r = 60
      \<and> self_threshold = 60"
proof -
  obtain r where r: "analyze_with_rules text start_time clk = Inr r"
    using analysis_returns by blast
  from analysis_facts(3,4) [OF r] r show ?thesis
    by (auto simp: self_threshold_def)
qed


text \<open>
  C6. For every text and every criterion result of its analysis, the earned points lie
  between 0 and the criterion's \<^verbatim>\<open>max_points\<close>; and the \<^verbatim>\<open>max_points\<close> of the 12 criteria
  add up to 100.
\<close>

theorem earned_points_within_bounds:
  "\<exists>r. analyze_with_rules text start_time clk = Inr r
      \<and> (\<forall>cr\<in>set (criteria_results r).
            0 \<le> earned_points cr \<and> earned_points cr \<le> of_int (max_points cr))
      \<and> length self_criteria = 12
      \<and> sum_list (map c_max_points self_criteria) = 100"
proof -
  obtain r where r: "analyze_with_rules text start_time clk = Inr r"
    using analysis_returns by blast
  note facts = analysis_facts [OF r]
  have "\<forall>cr\<in>set (criteria_results r).
          0 \<le> earned_points cr \<and> earned_points cr \<le> of_int (max_points cr)"
  proof
    fix cr
    assume "cr \<in> set (criteria_results r)"
    from list_all2_set2 [OF facts(1) this] obtain c where "result_ok c cr"
      by blast
    then show "0 \<le> earned_points cr \<and> earned_points cr \<le> of_int (max_points cr)"
      by (simp add: result_ok_def distributes_def)
  qed
  moreover have "length self_criteria = 12"
    by (simp add: self_criteria_def initialize_criteria_def)
  moreover have "sum_list (map c_max_points self_criteria) = 100"
    by (simp add: self_criteria_max_points)
  ultimately show ?thesis
    using r by blast
qed

theorem earned_points_within_bounds_witness:
  "\<exists>r. analyze_with_rules sample_plan 0 sample_clock = Inr r
      \<and> (\<exists>cr\<in>set (criteria_results r).
            criterion_id cr = 10 \<and> 0 \<le> earned_points cr
            \<and> earned_points cr \<le> of_int (max_points cr))"
proof -
  from earned_points_within_bounds [of sample_plan 0 sample_clock]
  obtain r where r: "analyze_with_rules sample_plan 0 sample_clock = Inr r"
    and bounds: "\<forall>cr\<in>set (criteria_results r).
                   0 \<le> earned_points cr \<and> earned_points cr \<le> of_int (max_points cr)"
    by blast
  from sample_plan_result [OF r, of 10 10 "16 / 5" "[8 / 5, 8 / 5]"]
  obtain cr where "cr \<in> set (criteria_results r)" "criterion_id cr = 10"
    by auto
  with r bounds show ?thesis
    by blast
qed

text \<open>
  C7. For every text and every criterion result of its analysis, the sub-scores are the
  criterion's sub-criteria in their order, each one earns the criterion's earned points
  times its own points over the criterion's \<^verbatim>\<open>max_points\<close>, and the earned points of the
  sub-scores add up to the criterion's earned points (exactly so in rational arithmetic).
\<close>

theorem sub_scores_proportional:
  "\<exists>r. analyze_with_rules text start_time clk = Inr r
      \<and> list_all2 (\<lambda>c cr. map ss_max_points (sub_scores cr) = map sub_points (c_sub_criteria c))
          self_criteria (criteria_results r)
      \<and> (\<forall>cr\<in>set (criteria_results r).
            (\<forall>s\<in>set (sub_scores cr).
               ss_earned_points s
                 = earned_points cr * (of_int (ss_max_points s) / of_int (max_points cr)))
            \<and> sum_list (map ss_earned_points (sub_scores cr)) = earned_points cr)"
proof -
  obtain r where r: "analyze_with_rules text start_time clk = Inr r"
    using analysis_returns by blast
  note facts = analysis_facts [OF r]
  have "list_all2 (\<lambda>c cr. map ss_max_points (sub_scores cr) = map sub_points (c_sub_criteria c))
          self_criteria (criteria_results r)"
    using facts(1)
    by (rule list_all2_mono) (simp add: result_ok_def distributes_def proportional_def comp_def)
  moreover have "\<forall>cr\<in>set (criteria_results r).
      (\<forall>s\<in>set (sub_scores cr).
         ss_earned_points s
           = earned_points cr * (of_int (ss_max_points s) / of_int (max_points cr)))
      \<and> sum_list (map ss_earned_points (sub_scores cr)) = earned_points cr"
  proof
    fix cr
    assume "cr \<in> set (criteria_results r)"
    from list_all2_set2 [OF facts(1) this]
    obtain c where c: "c \<in> set self_criteria" and "result_ok c cr"
      by blast
    then have subs: "sub_scores cr = map (proportional (earned_points cr) c) (c_sub_criteria c)"
      and cap: "max_points cr = c_max_points c"
      by (simp_all add: result_ok_def distributes_def)
    from c self_criteria_positive have nz: "c_max_points c \<noteq> 0"
      by auto
    from c self_criteria_sub_points
    have total: "sum_list (map sub_points (c_sub_criteria c)) = c_max_points c"
      by blast
    have "\<forall>s\<in>set (sub_scores cr).
            ss_earned_points s
              = earned_points cr * (of_int (ss_max_points s) / of_int (max_points cr))"
      using proportional_entry [of _ "earned_points cr" c "c_sub_criteria c"]
      by (simp only: subs cap) blast
    moreover have "sum_list (map ss_earned_points (sub_scores cr)) = earned_points cr"
      using proportional_sum [OF nz total] by (simp only: subs)
    ultimately show "(\<forall>s\<in>set (sub_scores cr).
         ss_earned_points s
           = earned_points cr * (of_int (ss_max_points s) / of_int (max_points cr)))
      \<and> sum_list (map ss_earned_points (sub_scores cr)) = earned_points cr"
      by blast
  qed
  ultimately show ?thesis
    using r by blast
qed

theorem sub_scores_proportional_witness:
  "\<exists>r. analyze_with_rules sample_plan 0 sample_clock = Inr r
      \<and> (\<exists>cr\<in>set (criteria_results r).
            earned_points cr = 9 / 5
            \<and> map ss_earned_points (sub_scores cr) = [9 / 10, 27 / 50, 9 / 25]
            \<and> (\<exists>s\<in>set (sub_scores cr).
                 ss_earned_points s
                   = earned_points cr * (of_int (ss_max_points s) / of_int (max_points cr)))
            \<and> sum_list (map ss_earned_points (sub_scores cr)) = earned_points cr)"
proof -
  from sub_scores_proportional [of sample_plan 0 sample_clock]
  obtain r where r: "analyze_with_rules sample_plan 0 sample_clock = Inr r"
    and shared: "\<forall>cr\<in>set (criteria_results r).
      (\<forall>s\<in>set (sub_scores cr).
         ss_earned_points s
           = earned_points cr * (of_int (ss_max_points s) / of_int (max_points cr)))
      \<and> sum_list (map ss_earned_points (sub_scores cr)) = earned_points cr"
    by blast
  from sample_plan_result [OF r, of 11 10 "9 / 5" "[9 / 10, 27 / 50, 9 / 25]"]
  obtain cr where cr: "cr \<in> set (criteria_results r)" "earned_points cr = 9 / 5"
    "map ss_earned_points (sub_scores cr) = [9 / 10, 27 / 50, 9 / 25]"
    by auto
  from cr(3) obtain s where s: "s \<in> set (sub_scores cr)"
    by (cases "sub_scores cr") auto
  from shared cr(1)
  have each: "\<forall>s\<in>set (sub_scores cr).
      ss_earned_points s = earned_points cr * (of_int (ss_max_points s) / of_int (max_points cr))"
    and total: "sum_list (map ss_earned_points (sub_scores cr)) = earned_points cr"
    by blast+
  from each s
  have "\<exists>s\<in>set (sub_scores cr).
      ss_earned_points s = earned_points cr * (of_int (ss_max_points s) / of_int (max_points cr))"
    by blast
  with cr total
  have "\<exists>cr\<in>set (criteria_results r).
            earned_points cr = 9 / 5
            \<and> map ss_earned_points (sub_scores cr) = [9 / 10, 27 / 50, 9 / 25]
            \<and> (\<exists>s\<in>set (sub_scores cr).
                 ss_earned_points s
                   = earned_points cr * (of_int (ss_max_points s) / of_int (max_points cr)))
            \<and> sum_list (map ss_earned_points (sub_scores cr)) = earned_points cr"
    by (intro bexI [of _ cr] conjI)
  with r show ?thesis
    by (intro exI [of _ r] conjI)
qed

text \<open>
  C8. For every list of criterion results and every bag: a result is weak when its
  percentage, earned over \<^verbatim>\<open>max_points\<close> times 100, is below 70; the weak entries are
  ranked, as a stable rearrangement, by \<^verbatim>\<open>max_points\<close> times (70 minus the percentage), the
  greater first, and among equal ones the greater \<^verbatim>\<open>max_points\<close> first; the specific
  recommendations are those of the first 5 of the ranking; the general ones are appended
  only when fewer than 3 specific ones came out; and at most 6 are returned. With a bag
  that the extractor built the generator returns.
\<close>

theorem recommendations_ranked_and_capped:
  "let weak = map weak_entry (filter (\<lambda>cr. performance_pct cr < 70) results);
       ranked = sort_reverse sort_key_of weak;
       specific = List.map_filter (\<lambda>w. generate_specific_recommendation w bag) (take 5 ranked)
   in (\<forall>cr\<in>set results.
         0 < max_points cr \<longrightarrow>
           performance_pct cr = earned_points cr / of_int (max_points cr) * 100)
      \<and> mset ranked = mset weak
      \<and> sorted_wrt ranks_before ranked
      \<and> (\<forall>k. filter (\<lambda>w. sort_key_of w = k) ranked = filter (\<lambda>w. sort_key_of w = k) weak)
      \<and> generate_rule_based_recommendations results bag
          = (if length specific < 3
             then err_bind (generate_general_recommendations bag results)
                    (\<lambda>general. Inr (take 6 (specific @ general)))
             else Inr (take 6 specific))
      \<and> (\<forall>recs. generate_rule_based_recommendations results bag = Inr recs
                   \<longrightarrow> length recs \<le> 6)
      \<and> (\<forall>body. perform_comprehensive_analysis body = Inr bag
                   \<longrightarrow> (\<exists>recs. generate_rule_based_recommendations results bag = Inr recs))"
proof -
  have "\<forall>body. perform_comprehensive_analysis body = Inr bag
          \<longrightarrow> (\<exists>recs. generate_rule_based_recommendations results bag = Inr recs)"
  proof (intro allI impI)
    fix body
    assume "perform_comprehensive_analysis body = Inr bag"
    with perform_wf [of body] have "wf_bag bag"
      by auto
    then show "\<exists>recs. generate_rule_based_recommendations results bag = Inr recs"
      by (rule recommendations_wf)
  qed
  moreover have "\<forall>cr\<in>set results.
         0 < max_points cr \<longrightarrow>
           performance_pct cr = earned_points cr / of_int (max_points cr) * 100"
    by (simp add: performance_pct_def)
  moreover note recommendations_at_most_6 [of results bag]
    sort_reverse_mset [of sort_key_of] ranked_sorted sort_reverse_stable [of sort_key_of]
    recommendations_unfold [of results bag]
  ultimately show ?thesis
    unfolding Let_def by blast
qed

theorem recommendations_ranked_and_capped_witness:
  "perform_comprehensive_analysis [] = Inr empty_text_bag
     \<and> map max_points sample_results = [5, 10, 5]
     \<and> map performance_pct sample_results = [80, 20, 20]
     \<and> map w_id (sort_reverse sort_key_of
                   (map weak_entry (filter (\<lambda>cr. performance_pct cr < 70) sample_results)))
         = [1, 5]
     \<and> sorted_wrt ranks_before
         (sort_reverse sort_key_of
            (map weak_entry (filter (\<lambda>cr. performance_pct cr < 70) sample_results)))
     \<and> generate_rule_based_recommendations sample_results empty_text_bag
         = Inr [Specific CRITIQUE 1 2 10, Specific HAUTE 5 1 5,
                General MOYENNE Developpement_du_business_plan,
                General HAUTE Ajout_d_elements_financiers,
                General CRITIQUE Retravailler_les_fondamentaux,
                General MOYENNE Professionnalisation_du_discours]
     \<and> length [Specific CRITIQUE 1 2 10, Specific HAUTE 5 1 5,
                General MOYENNE Developpement_du_business_plan,
                General HAUTE Ajout_d_elements_financiers,
                General CRITIQUE Retravailler_les_fondamentaux,
                General MOYENNE Professionnalisation_du_discours] \<le> (6::nat)"
proof -
  note general = recommendations_ranked_and_capped [of sample_results empty_text_bag]
  have pct: "map max_points sample_results = [5, 10, 5]"
    "map performance_pct sample_results = [80, 20, 20]"
    by (simp_all add: sample_results_def performance_pct_def)
  have ranked: "map w_id (sort_reverse sort_key_of
                   (map weak_entry (filter (\<lambda>cr. performance_pct cr < 70) sample_results)))
         = [1, 5]"
    by (simp add: sample_results_def performance_pct_def weak_entry_def sort_reverse_def
        sort_key_of_def)
  have recs: "generate_rule_based_recommendations sample_results empty_text_bag
         = Inr [Specific CRITIQUE 1 2 10, Specific HAUTE 5 1 5,
                General MOYENNE Developpement_du_business_plan,
                General HAUTE Ajout_d_elements_financiers,
                General CRITIQUE Retravailler_les_fondamentaux,
                General MOYENNE Professionnalisation_du_discours]"
    by (simp add: sample_results_def empty_text_bag_def recommendation_defs)
  from general have "sorted_wrt ranks_before
         (sort_reverse sort_key_of
            (map weak_entry (filter (\<lambda>cr. performance_pct cr < 70) sample_results)))"
    unfolding Let_def by blast
  moreover from general recs
  have "length [Specific CRITIQUE 1 2 10, Specific HAUTE 5 1 5,
                General MOYENNE Developpement_du_business_plan,
                General HAUTE Ajout_d_elements_financiers,
                General CRITIQUE Retravailler_les_fondamentaux,
                General MOYENNE Professionnalisation_du_discours] \<le> (6::nat)"
    unfolding Let_def by blast
  ultimately show ?thesis
    using empty_text_features pct ranked recs by (intro conjI)
qed

text \<open>
  C9. On the empty text the analysis returns: the total score is 0, the plan is not
  eligible, and there are recommendations, namely those for the criteria 4, 1, 2, 8
  and 9, all of the highest priority.
\<close>

theorem empty_text_analysis:
  "\<exists>r. analyze_with_rules [] start_time clk = Inr r
      \<and> total_score r = 0
      \<and> \<not> is_eligible r
      \<and> recommendations r \<noteq> []
      \<and> recommendations r =
          [Specific CRITIQUE 4 0 15, Specific CRITIQUE 1 0 10, Specific CRITIQUE 2 0 10,
           Specific CRITIQUE 8 0 10, Specific CRITIQUE 9 0 10]"
  by (simp add: analyze_with_rules_def self_threshold_def generate_summary_def
      extractor_defs evaluator_defs recommendation_defs)

text \<open>
  C10. The extractor returns a bag for every text. On the empty text the entries of the
  bag are all 0 or false but for \<^verbatim>\<open>sentence_count\<close>, which is 1: splitting the empty text
  at the runs of \<open>.\<close>, \<open>!\<close> and \<open>?\<close> leaves one piece, the empty one, and the pieces are
  counted as they are (the paragraphs, in contrast, are counted without the blank pieces).
\<close>

theorem empty_text_sentence_count:
  "(\<forall>body. \<exists>d. perform_comprehensive_analysis body = Inr d)
     \<and> re_split_sentences [] = [[]]
     \<and> length (filter (\<lambda>p. strip p \<noteq> []) (split_paragraphs [])) = 0
     \<and> perform_comprehensive_analysis [] =
         Inr [(''text_length'', PInt 0), (''word_count'', PInt 0), (''sentence_count'', PInt 1),
              (''paragraph_count'', PInt 0), (''financial_terms'', PInt 0),
              (''market_terms'', PInt 0), (''strategy_terms'', PInt 0), (''team_terms'', PInt 0),
              (''product_terms'', PInt 0), (''risk_terms'', PInt 0),
              (''has_sections'', PBool False), (''has_numbers'', PInt 0),
              (''has_percentages'', PInt 0), (''has_currency'', PInt 0),
              (''professional_terms'', PInt 0), (''positive_sentiment'', PInt 0),
              (''negative_sentiment'', PInt 0)]"
proof -
  have "\<forall>body. \<exists>d. perform_comprehensive_analysis body = Inr d"
    using perform_wf by blast
  then show ?thesis
    by (simp add: empty_text_features empty_text_bag_def re_split_sentences_def
        split_paragraphs_def strip_def)
qed

end
